theory Spec2Isabelle
  imports Main "HOL-Library.Word" "HOL-Library.Sublist"
begin

section \<open>pathmaster: the path of the running executable\<close>

text \<open>
  The repository is one header, \<^verbatim>\<open>include/pathmaster/pathmaster.hpp\<close>, with the
  exception class \<^verbatim>\<open>PathMasterError\<close> and the function
  \<^verbatim>\<open>get_executable_path\<close>, and one self-test, \<^verbatim>\<open>tests/pathmaster_test.cpp\<close>.
  The function has four branches chosen by the preprocessor; each one asks the host for
  the path and hands it to \<^verbatim>\<open>std::filesystem::canonical\<close>.

  The embedding keeps the branches, the order of the preprocessor tests, the try blocks
  and the handlers as they are written. What the repository only consumes (the
  operating system calls, the allocator and the C++ filesystem library) is a parameter of
  the model: a record of functions over an abstract host state. A call of such a
  function is logged, with its arguments and its outcome, so that statements about how
  often and in which order the host is asked can be written down.

  A run has one of three ends: a path is returned, an exception leaves the function, or
  the behaviour is undefined, because memory outside a buffer is read or written. The
  first two are \<open>Some (Inr p, w)\<close> and \<open>Some (Inl e, w)\<close>, with the world \<open>w\<close> the
  run leaves; the third is \<open>None\<close>.
\<close>

subsection \<open>Exceptions\<close>

text \<open>
  An exception object is modelled by its dynamic class and the text \<^verbatim>\<open>what()\<close>
  returns. The classes are those the code and the library functions it calls can throw;
  all of them derive from \<^verbatim>\<open>std::exception\<close>, which is what every handler of
  the header catches.
\<close>

datatype exception_class =
    PathMasterError_class
  | filesystem_error
  | bad_alloc
  | length_error
  | std_exception

datatype exn = Exn (cls: exception_class) (what: string)

text \<open>
  \<^verbatim>\<open>explicit PathMasterError(const std::string &message)
      : std::runtime_error("PathMasterError: " + message) {}\<close>
\<close>

definition PathMasterError :: "string \<Rightarrow> exn" where
  "PathMasterError message = Exn PathMasterError_class (''PathMasterError: '' @ message)"

subsection \<open>The host\<close>

type_synonym path = string

text \<open>
  The preprocessor symbols the header tests. Any combination can be given; the header
  tests them in the order \<^verbatim>\<open>__linux__\<close>, \<^verbatim>\<open>__APPLE__\<close>, \<^verbatim>\<open>_WIN32\<close>.
\<close>

record macros =
  defined_linux :: bool
  defined_APPLE :: bool
  defined_WIN32 :: bool

text \<open>
  The functions of the host, over a host state \<open>'s\<close>: each takes its arguments and the
  state and returns its outcome and the state after the call.
  \<^item> \<open>read_symlink\<close> and \<open>canonical\<close> are the functions of \<^verbatim>\<open>std::filesystem\<close>;
    they return a path or throw.
  \<^item> \<open>NSGetExecutablePath size\<close> is \<^verbatim>\<open>_NSGetExecutablePath(buf, &size)\<close>: it
    returns the \<^verbatim>\<open>int\<close> result, the bytes it wrote from \<^verbatim>\<open>buf\<close> on, and the
    value left in \<^verbatim>\<open>size\<close>.
  \<^item> \<open>GetModuleFileNameW nSize\<close> is \<^verbatim>\<open>GetModuleFileNameW(nullptr, buf, nSize)\<close>:
    it returns the \<^verbatim>\<open>DWORD\<close> result and the code units it wrote from \<^verbatim>\<open>buf\<close> on.
  \<^item> \<open>allocate n\<close> is the allocation a vector makes to grow to \<open>n\<close> elements: \<open>None\<close>
    when the storage is obtained, the exception (\<^verbatim>\<open>bad_alloc\<close>,
    \<^verbatim>\<open>length_error\<close>) when it is not.
  \<^item> \<open>path_ctor buf size\<close> is the expression
    \<^verbatim>\<open>std::filesystem::path(buffer.data(), size)\<close> of the Windows branch, with \<open>buf\<close>
    the contents of the vector. Which constructor of the library takes a pointer
    and a \<^verbatim>\<open>DWORD\<close>, and what it reads, is not written in the header, so the path it
    builds is the host's to say; \<open>None\<close> when building it reads outside the vector.
  \<^item> \<open>filename\<close> and \<open>parent_path\<close> are the member functions of
    \<^verbatim>\<open>std::filesystem::path\<close> the self-test uses.
  Code units of \<^verbatim>\<open>char\<close> and of \<^verbatim>\<open>wchar_t\<close> are both modelled as \<^typ>\<open>char\<close>.

  The two vectors the header constructs have a fixed size, \<^verbatim>\<open>PATH_MAX\<close> bytes and 32767
  code units, and the messages it builds are short; these allocations, and the one
  for the path object built from the buffer, are taken to succeed. The size of
  \<^verbatim>\<open>buffer.resize(size)\<close> is whatever the operating system reported, and that
  allocation is the host's \<open>allocate\<close>.
\<close>

record 's os =
  read_symlink :: "path \<Rightarrow> 's \<Rightarrow> (exn + path) \<times> 's"
  canonical :: "path \<Rightarrow> 's \<Rightarrow> (exn + path) \<times> 's"
  NSGetExecutablePath :: "32 word \<Rightarrow> 's \<Rightarrow> (int \<times> char list \<times> 32 word) \<times> 's"
  GetModuleFileNameW :: "32 word \<Rightarrow> 's \<Rightarrow> (32 word \<times> char list) \<times> 's"
  allocate :: "nat \<Rightarrow> 's \<Rightarrow> exn option \<times> 's"
  path_ctor :: "char list \<Rightarrow> 32 word \<Rightarrow> path option"
  filename :: "path \<Rightarrow> string"
  parent_path :: "path \<Rightarrow> path"

text \<open>
  The log.
  \<^item> \<open>Ev_NSGetExecutablePath k n rc n'\<close>: called with a buffer of \<open>k\<close> bytes and
    \<^verbatim>\<open>size\<close> = \<open>n\<close>, returned \<open>rc\<close> and left \<open>n'\<close> in \<^verbatim>\<open>size\<close>.
  \<^item> \<open>Ev_resize k n a\<close>: \<^verbatim>\<open>buffer.resize(n)\<close> on a vector of \<open>k\<close> bytes; \<open>a\<close> is the
    exception it threw, if it threw.
  \<^item> \<open>Ev_GetModuleFileNameW n r\<close>: called with \<^verbatim>\<open>nSize\<close> = \<open>n\<close>, returned \<open>r\<close>.
  \<^item> \<open>Ev_cout s\<close>: \<open>s\<close> written to \<^verbatim>\<open>std::cout\<close>.
\<close>

datatype event =
    Ev_read_symlink path "exn + path"
  | Ev_canonical path "exn + path"
  | Ev_NSGetExecutablePath nat "32 word" int "32 word"
  | Ev_resize nat nat "exn option"
  | Ev_GetModuleFileNameW "32 word" "32 word"
  | Ev_cout string

type_synonym 's world = "'s \<times> event list"

subsection \<open>Buffers\<close>

text \<open>\<^verbatim>\<open>PATH_MAX\<close> of \<^verbatim>\<open>sys/syslimits.h\<close> on the Apple platform.\<close>

definition PATH_MAX :: nat where
  "PATH_MAX = 1024"

text \<open>\<^verbatim>\<open>std::vector<T> buffer(n)\<close>: \<open>n\<close> value-initialised elements.\<close>

definition vector :: "nat \<Rightarrow> char list" where
  "vector n = replicate n (CHR 0x00)"

text \<open>
  \<^verbatim>\<open>buffer.resize(n)\<close>, when it does not throw: the first \<open>n\<close> elements are kept, new
  elements are value-initialised.
\<close>

definition resize :: "nat \<Rightarrow> char list \<Rightarrow> char list" where
  "resize n buf = take n buf @ replicate (n - length buf) (CHR 0x00)"

text \<open>
  What a system call wrote, from the start of a buffer on. The vector keeps its size; a
  call that writes more than the vector holds writes outside it, and the behaviour is
  undefined.
\<close>

definition store :: "char list \<Rightarrow> char list \<Rightarrow> char list option" where
  "store out buf = (if length out \<le> length buf then Some (out @ drop (length out) buf) else None)"

text \<open>
  \<^verbatim>\<open>std::filesystem::canonical(buffer.data())\<close> builds the path from a pointer to a
  NUL-terminated string: the characters before the first NUL. When the vector holds no
  NUL (an empty vector holds none) the read runs past its end, and the behaviour is
  undefined.
\<close>

definition c_str :: "char list \<Rightarrow> path option" where
  "c_str buf = (if CHR 0x00 \<in> set buf then Some (takeWhile (\<lambda>c. c \<noteq> CHR 0x00) buf) else None)"

subsection \<open>Calls of the host\<close>

definition call_read_symlink :: "'s os \<Rightarrow> path \<Rightarrow> 's world \<Rightarrow> (exn + path) \<times> 's world" where
  "call_read_symlink os p w =
     (case w of (s, log) \<Rightarrow>
        (case read_symlink os p s of (r, s') \<Rightarrow> (r, (s', log @ [Ev_read_symlink p r]))))"

definition call_canonical :: "'s os \<Rightarrow> path \<Rightarrow> 's world \<Rightarrow> (exn + path) \<times> 's world" where
  "call_canonical os p w =
     (case w of (s, log) \<Rightarrow>
        (case canonical os p s of (r, s') \<Rightarrow> (r, (s', log @ [Ev_canonical p r]))))"

definition call_NSGetExecutablePath ::
  "'s os \<Rightarrow> char list \<Rightarrow> 32 word \<Rightarrow> 's world \<Rightarrow> ((int \<times> char list \<times> 32 word) \<times> 's world) option" where
  "call_NSGetExecutablePath os buf sz w =
     (case w of (s, log) \<Rightarrow>
        (case NSGetExecutablePath os sz s of
           ((rc, out, sz'), s') \<Rightarrow>
             (case store out buf of
                None \<Rightarrow> None
              | Some buf' \<Rightarrow>
                  Some ((rc, buf', sz'),
                        (s', log @ [Ev_NSGetExecutablePath (length buf) sz rc sz'])))))"

definition call_GetModuleFileNameW ::
  "'s os \<Rightarrow> char list \<Rightarrow> 32 word \<Rightarrow> 's world \<Rightarrow> ((32 word \<times> char list) \<times> 's world) option" where
  "call_GetModuleFileNameW os buf nSize w =
     (case w of (s, log) \<Rightarrow>
        (case GetModuleFileNameW os nSize s of
           ((r, out), s') \<Rightarrow>
             (case store out buf of
                None \<Rightarrow> None
              | Some buf' \<Rightarrow> Some ((r, buf'), (s', log @ [Ev_GetModuleFileNameW nSize r])))))"

text \<open>
  \<^verbatim>\<open>buffer.resize(n)\<close>. A vector that does not grow allocates nothing and cannot throw.
  One that grows asks the allocator; when the allocation throws, the exception leaves
  \<^verbatim>\<open>resize\<close>.
\<close>

definition do_resize :: "'s os \<Rightarrow> nat \<Rightarrow> char list \<Rightarrow> 's world \<Rightarrow> (exn + char list) \<times> 's world" where
  "do_resize os n buf w =
     (case w of (s, log) \<Rightarrow>
        if n \<le> length buf then (Inr (resize n buf), (s, log @ [Ev_resize (length buf) n None]))
        else (case allocate os n s of
                (None, s') \<Rightarrow> (Inr (resize n buf), (s', log @ [Ev_resize (length buf) n None]))
              | (Some e, s') \<Rightarrow> (Inl e, (s', log @ [Ev_resize (length buf) n (Some e)]))))"

subsection \<open>\<^verbatim>\<open>get_executable_path\<close>\<close>

text \<open>
  The body of each try block, with the exception it lets escape as \<open>Inl\<close>.

  \<^verbatim>\<open>return std::filesystem::canonical(std::filesystem::read_symlink("/proc/self/exe"));\<close>
\<close>

definition linux_try :: "'s os \<Rightarrow> 's world \<Rightarrow> (exn + path) \<times> 's world" where
  "linux_try os w =
     (case call_read_symlink os ''/proc/self/exe'' w of
        (Inl e, w1) \<Rightarrow> (Inl e, w1)
      | (Inr link, w1) \<Rightarrow> call_canonical os link w1)"

text \<open>
  \<^verbatim>\<open>std::vector<char> buffer(PATH_MAX);
  std::uint32_t size = static_cast<std::uint32_t>(buffer.size());
  if (_NSGetExecutablePath(buffer.data(), &size) != 0) {
      buffer.resize(size);
      if (_NSGetExecutablePath(buffer.data(), &size) != 0) {
          throw PathMasterError("Failed to get the executable path on MacOS after resizing the buffer");
      }
  }
  return std::filesystem::canonical(buffer.data());\<close>
\<close>

definition apple_query :: "'s os \<Rightarrow> 's world \<Rightarrow> ((exn + char list) \<times> 's world) option" where
  "apple_query os w =
     (let buffer = vector PATH_MAX;
          sz = (word_of_nat (length buffer) :: 32 word)
      in case call_NSGetExecutablePath os buffer sz w of
           None \<Rightarrow> None
         | Some ((rc, buffer1, sz1), w1) \<Rightarrow>
             if rc \<noteq> 0 then
               (case do_resize os (unat sz1) buffer1 w1 of
                  (Inl e, w2) \<Rightarrow> Some (Inl e, w2)
                | (Inr buffer2, w2) \<Rightarrow>
                    (case call_NSGetExecutablePath os buffer2 sz1 w2 of
                       None \<Rightarrow> None
                     | Some ((rc', buffer3, sz3), w3) \<Rightarrow>
                         if rc' \<noteq> 0 then
                           Some (Inl (PathMasterError
                              ''Failed to get the executable path on MacOS after resizing the buffer''), w3)
                         else Some (Inr buffer3, w3)))
             else Some (Inr buffer1, w1))"

definition apple_try :: "'s os \<Rightarrow> 's world \<Rightarrow> ((exn + path) \<times> 's world) option" where
  "apple_try os w =
     (case apple_query os w of
        None \<Rightarrow> None
      | Some (Inl e, w1) \<Rightarrow> Some (Inl e, w1)
      | Some (Inr buffer, w1) \<Rightarrow>
          (case c_str buffer of
             None \<Rightarrow> None
           | Some p \<Rightarrow> Some (call_canonical os p w1)))"

text \<open>
  \<^verbatim>\<open>std::vector<wchar_t> buffer(32767);
  const DWORD size = GetModuleFileNameW(nullptr, buffer.data(), static_cast<DWORD>(buffer.size()));
  if (size == 0) {
      throw PathMasterError("Failed to get the executable path on Windows");
  }
  return std::filesystem::canonical(std::filesystem::path(buffer.data(), size));\<close>
\<close>

definition windows_try :: "'s os \<Rightarrow> 's world \<Rightarrow> ((exn + path) \<times> 's world) option" where
  "windows_try os w =
     (let buffer = vector 32767
      in case call_GetModuleFileNameW os buffer (word_of_nat (length buffer)) w of
           None \<Rightarrow> None
         | Some ((sz, buffer1), w1) \<Rightarrow>
             if sz = 0 then
               Some (Inl (PathMasterError ''Failed to get the executable path on Windows''), w1)
             else (case path_ctor os buffer1 sz of
                     None \<Rightarrow> None
                   | Some p \<Rightarrow> Some (call_canonical os p w1)))"

text \<open>
  \<^verbatim>\<open>catch (const std::exception &e) { throw PathMasterError(label + std::string(e.what())); }\<close>
\<close>

definition catch_rethrow ::
  "string \<Rightarrow> ((exn + path) \<times> 's world) option \<Rightarrow> ((exn + path) \<times> 's world) option" where
  "catch_rethrow label r =
     (case r of
        None \<Rightarrow> None
      | Some (Inl e, w) \<Rightarrow> Some (Inl (PathMasterError (label @ what e)), w)
      | Some (Inr p, w) \<Rightarrow> Some (Inr p, w))"

definition get_executable_path ::
  "macros \<Rightarrow> 's os \<Rightarrow> 's world \<Rightarrow> ((exn + path) \<times> 's world) option" where
  "get_executable_path m os w =
     (if defined_linux m then
        catch_rethrow ''Failed to get the executable path on GNU/Linux: '' (Some (linux_try os w))
      else if defined_APPLE m then
        catch_rethrow ''Failed to canonicalize the path on MacOS: '' (apple_try os w)
      else if defined_WIN32 m then
        catch_rethrow ''Failed to canonicalize the path on Windows: '' (windows_try os w)
      else Some (Inl (PathMasterError ''Unsupported platform''), w))"

subsection \<open>The self-test\<close>

text \<open>\<^verbatim>\<open>EXIT_FAILURE\<close> of \<^verbatim>\<open>cstdlib\<close>: 1 on the three platforms.\<close>

definition EXIT_FAILURE :: int where
  "EXIT_FAILURE = 1"

text \<open>
  How a run of \<^verbatim>\<open>main\<close> ends: with the value it returns, or, when an exception leaves
  \<^verbatim>\<open>main\<close>, with \<^verbatim>\<open>std::terminate\<close>.
\<close>

datatype ending = Exit int | Terminate exn

text \<open>
  \<^verbatim>\<open>operator<<\<close> for a path writes it quoted: between double quotes, with a
  backslash before each double quote and each backslash.
\<close>

definition quoted :: "string \<Rightarrow> string" where
  "quoted s =
     CHR 0x22 # concat (map (\<lambda>c. if c = CHR 0x22 \<or> c = CHR 0x5C then [CHR 0x5C, c] else [c]) s)
       @ [CHR 0x22]"

definition cout :: "string \<Rightarrow> 's world \<Rightarrow> 's world" where
  "cout s w = (case w of (st, log) \<Rightarrow> (st, log @ [Ev_cout s]))"

text \<open>
  \<^verbatim>\<open>const std::filesystem::path executable_path = pathmaster::get_executable_path();
  std::cout << "Executable path: " << executable_path << '\n';
  std::cout << "Directory path: " << executable_path.parent_path() << '\n';
  return (executable_path.filename().string() == "pathmaster_test") ? 0 : EXIT_FAILURE;\<close>
\<close>

definition main :: "macros \<Rightarrow> 's os \<Rightarrow> 's world \<Rightarrow> (ending \<times> 's world) option" where
  "main m os w =
     (case get_executable_path m os w of
        None \<Rightarrow> None
      | Some (Inl e, w1) \<Rightarrow> Some (Terminate e, w1)
      | Some (Inr executable_path, w1) \<Rightarrow>
          (let w2 = cout (''Executable path: '' @ quoted executable_path @ [CHR 0x0A]) w1;
               w3 = cout (''Directory path: '' @ quoted (parent_path os executable_path) @ [CHR 0x0A]) w2
           in Some (Exit (if filename os executable_path = ''pathmaster_test'' then 0 else EXIT_FAILURE),
                    w3)))"

subsection \<open>Reading the log\<close>

text \<open>The exception a logged call threw, if it threw.\<close>

fun thrown :: "event \<Rightarrow> exn option" where
  "thrown (Ev_read_symlink p (Inl e)) = Some e"
| "thrown (Ev_canonical p (Inl e)) = Some e"
| "thrown (Ev_resize k n (Some e)) = Some e"
| "thrown ev = None"

fun is_query :: "event \<Rightarrow> bool" where
  "is_query (Ev_NSGetExecutablePath k n rc n') = True"
| "is_query ev = False"

fun is_resize :: "event \<Rightarrow> bool" where
  "is_resize (Ev_resize k n a) = True"
| "is_resize ev = False"

fun is_canonical :: "event \<Rightarrow> bool" where
  "is_canonical (Ev_canonical p r) = True"
| "is_canonical ev = False"

text \<open>
  \<open>returned_by_canonical new p\<close>: the last call in \<open>new\<close> is a call of
  \<^verbatim>\<open>canonical\<close> that returned \<open>p\<close>, and no call in \<open>new\<close> threw.
\<close>

definition returned_by_canonical :: "event list \<Rightarrow> path \<Rightarrow> bool" where
  "returned_by_canonical new p =
     (new \<noteq> [] \<and> (case last new of Ev_canonical q r \<Rightarrow> r = Inr p | _ \<Rightarrow> False)
      \<and> list_all (\<lambda>ev. thrown ev = None) new)"

text \<open>
  \<open>rethrown_as new e\<close>: only the last call in \<open>new\<close> can have thrown, and if it did, the
  text of what it threw ends the text of \<open>e\<close>.
\<close>

definition rethrown_as :: "event list \<Rightarrow> exn \<Rightarrow> bool" where
  "rethrown_as new e =
     (list_all (\<lambda>ev. thrown ev = None) (butlast new)
      \<and> (new = [] \<or> (case thrown (last new) of None \<Rightarrow> True | Some x \<Rightarrow> suffix (what x) (what e))))"

text \<open>
  What a logged call says about the host. \<open>step os s ev s'\<close>: in the state \<open>s\<close> the host
  \<open>os\<close> answers the call of \<open>ev\<close> with the outcome of \<open>ev\<close> and goes to the state \<open>s'\<close>.
  A system call wrote no more than the buffer it was given holds; a vector that does not
  grow leaves the host alone. \<open>replay os s evs s'\<close>: the calls of \<open>evs\<close>, made one
  after the other from \<open>s\<close>, are answered as logged and end in \<open>s'\<close>.
\<close>

fun step :: "'s os \<Rightarrow> 's \<Rightarrow> event \<Rightarrow> 's \<Rightarrow> bool" where
  "step os s (Ev_read_symlink p r) s' = (read_symlink os p s = (r, s'))"
| "step os s (Ev_canonical p r) s' = (canonical os p s = (r, s'))"
| "step os s (Ev_NSGetExecutablePath k n rc n') s' =
     (\<exists>out. NSGetExecutablePath os n s = ((rc, out, n'), s') \<and> length out \<le> k)"
| "step os s (Ev_resize k n a) s' =
     (if n \<le> k then a = None \<and> s' = s else allocate os n s = (a, s'))"
| "step os s (Ev_GetModuleFileNameW n r) s' =
     (\<exists>out. GetModuleFileNameW os n s = ((r, out), s') \<and> length out \<le> unat n)"
| "step os s (Ev_cout x) s' = (s' = s)"

fun replay :: "'s os \<Rightarrow> 's \<Rightarrow> event list \<Rightarrow> 's \<Rightarrow> bool" where
  "replay os s [] s' = (s' = s)"
| "replay os s (ev # evs) s' = (\<exists>s1. step os s ev s1 \<and> replay os s1 evs s')"

text \<open>
  What a handler makes of the outcome of the last call of its try block: an exception is
  wrapped, a path is passed on.
\<close>

definition rewrap :: "string \<Rightarrow> exn + path \<Rightarrow> exn + path" where
  "rewrap label c = (case c of Inl e \<Rightarrow> Inl (PathMasterError (label @ what e)) | Inr p \<Rightarrow> Inr p)"

subsection \<open>What is asked of a host\<close>

text \<open>
  \<open>memory_safe os\<close>: the system calls keep to the memory they are given. A call of
  \<^verbatim>\<open>_NSGetExecutablePath\<close> writes no more than \<^verbatim>\<open>size\<close> bytes, and when it returns 0
  what it wrote holds a NUL. A call of \<^verbatim>\<open>GetModuleFileNameW\<close> writes no more than
  \<^verbatim>\<open>nSize\<close> code units, and when its result is not 0 a path can be built from a buffer
  that starts with what it wrote.
\<close>

definition memory_safe :: "'s os \<Rightarrow> bool" where
  "memory_safe os =
     ((\<forall>n st rc out n' st'.
         NSGetExecutablePath os n st = ((rc, out, n'), st') \<longrightarrow>
           length out \<le> unat n \<and> (rc = 0 \<longrightarrow> CHR 0x00 \<in> set out))
      \<and> (\<forall>n st r out st'.
         GetModuleFileNameW os n st = ((r, out), st') \<longrightarrow>
           length out \<le> unat n \<and> (r \<noteq> 0 \<longrightarrow> (\<forall>rest. path_ctor os (out @ rest) r \<noteq> None))))"

text \<open>
  \<open>unmodified os s\<close>: in the state \<open>s\<close>, no call of the host changes the state.
\<close>

definition unmodified :: "'s os \<Rightarrow> 's \<Rightarrow> bool" where
  "unmodified os s =
     ((\<forall>p. snd (read_symlink os p s) = s)
      \<and> (\<forall>p. snd (canonical os p s) = s)
      \<and> (\<forall>n. snd (NSGetExecutablePath os n s) = s)
      \<and> (\<forall>n. snd (GetModuleFileNameW os n s) = s)
      \<and> (\<forall>n. snd (allocate os n s) = s))"

subsection \<open>Paths, lexically\<close>

text \<open>
  The directory separators of the build: the slash, and on the Windows branch the
  backslash as well.
\<close>

definition windows_build :: "macros \<Rightarrow> bool" where
  "windows_build m = (\<not> defined_linux m \<and> \<not> defined_APPLE m \<and> defined_WIN32 m)"

definition separator :: "macros \<Rightarrow> char \<Rightarrow> bool" where
  "separator m c = (c = CHR ''/'' \<or> (windows_build m \<and> c = CHR 0x5C))"

fun split_on :: "(char \<Rightarrow> bool) \<Rightarrow> string \<Rightarrow> string list" where
  "split_on sep [] = [[]]"
| "split_on sep (c # cs) =
     (if sep c then [] # split_on sep cs
      else (case split_on sep cs of [] \<Rightarrow> [[c]] | x # xs \<Rightarrow> (c # x) # xs))"

definition segments :: "macros \<Rightarrow> path \<Rightarrow> string list" where
  "segments m p = split_on (separator m) p"

definition dot_free :: "macros \<Rightarrow> path \<Rightarrow> bool" where
  "dot_free m p = (''.'' \<notin> set (segments m p) \<and> ''..'' \<notin> set (segments m p))"

text \<open>
  A path has a root when it starts with a separator or, on the Windows branch, with a
  drive, a colon and a separator.
\<close>

definition has_root :: "macros \<Rightarrow> path \<Rightarrow> bool" where
  "has_root m p =
     (case p of
        [] \<Rightarrow> False
      | c # cs \<Rightarrow>
          separator m c \<or>
          (windows_build m \<and> (case cs of d # e # _ \<Rightarrow> d = CHR '':'' \<and> separator m e | _ \<Rightarrow> False)))"

text \<open>The last component of a path: what follows its last separator.\<close>

definition last_component :: "macros \<Rightarrow> path \<Rightarrow> string" where
  "last_component m p = rev (takeWhile (\<lambda>c. \<not> separator m c) (rev p))"

text \<open>
  The path without its last component and the separators before it; a path that is only
  a root is left as it is.
\<close>

definition lexical_parent :: "macros \<Rightarrow> path \<Rightarrow> path" where
  "lexical_parent m p =
     (let d = dropWhile (\<lambda>c. \<not> separator m c) (rev p);
          stripped = dropWhile (separator m) d
      in if stripped = [] then rev d else rev stripped)"

subsection \<open>Example hosts\<close>

text \<open>
  The state of an example host is the path the operating system reports for the running
  executable and, when that file can be resolved, its canonical path. No call changes it.
  \<^item> \<open>read_symlink\<close> knows one link, \<^verbatim>\<open>/proc/self/exe\<close>.
  \<^item> \<open>canonical\<close> resolves the reported path and no other.
  \<^item> \<open>NSGetExecutablePath\<close> writes the path and a NUL when they fit the size given; if
    not it writes nothing and returns -1 and the size needed.
  \<^item> \<open>GetModuleFileNameW\<close> writes the path and a NUL and returns the length of the
    path; it returns 0 when there is no path to report or no room at all, and writes
    what fits before a NUL and returns the size given when the path does not fit.
  \<^item> \<open>allocate\<close> never fails.
  \<^item> \<open>path_ctor\<close> reads the buffer up to its first NUL.
\<close>

type_synonym image = "path \<times> path option"

definition no_such_file :: exn where
  "no_such_file = Exn filesystem_error ''filesystem error: No such file or directory''"

definition host :: "macros \<Rightarrow> image os" where
  "host m =
     \<lparr> read_symlink = (\<lambda>p st. (if p = ''/proc/self/exe'' then Inr (fst st) else Inl no_such_file, st)),
       canonical = (\<lambda>p st.
         (if p = fst st then (case snd st of None \<Rightarrow> Inl no_such_file | Some c \<Rightarrow> Inr c)
          else Inl no_such_file, st)),
       NSGetExecutablePath = (\<lambda>sz st.
         if length (fst st) < unat sz
         then ((0, fst st @ [CHR 0x00], sz), st)
         else ((- 1, [], word_of_nat (length (fst st) + 1)), st)),
       GetModuleFileNameW = (\<lambda>n st.
         if fst st = [] then ((0, []), st)
         else if length (fst st) < unat n
         then ((word_of_nat (length (fst st)), fst st @ [CHR 0x00]), st)
         else if n = 0 then ((0, []), st)
         else ((n, take (unat n - 1) (fst st) @ [CHR 0x00]), st)),
       allocate = (\<lambda>n st. (None, st)),
       path_ctor = (\<lambda>buf n. c_str buf),
       filename = last_component m,
       parent_path = lexical_parent m \<rparr>"

text \<open>
  A host on which the path keeps growing: every query reports that one more byte is
  needed than was given.
\<close>

definition growing_host :: "macros \<Rightarrow> image os" where
  "growing_host m = (host m) \<lparr> NSGetExecutablePath := (\<lambda>sz st. ((- 1, [], sz + 1), st)) \<rparr>"

text \<open>
  A host that reports a need of 4294967295 bytes and has no memory to give.
\<close>

definition out_of_memory :: exn where
  "out_of_memory = Exn bad_alloc ''std::bad_alloc''"

definition exhausted_host :: "macros \<Rightarrow> image os" where
  "exhausted_host m =
     (host m) \<lparr> NSGetExecutablePath := (\<lambda>sz st. ((- 1, [], 4294967295), st)),
               allocate := (\<lambda>n st. (Some out_of_memory, st)) \<rparr>"

text \<open>
  The example host with a \<^verbatim>\<open>canonical\<close> that keeps its contract in every state: it
  returns a path only if the path has a root and no dot segment.
\<close>

definition contract_host :: "macros \<Rightarrow> image os" where
  "contract_host m =
     (host m) \<lparr> canonical := (\<lambda>p st.
        (case canonical (host m) p st of
           (Inr c, st') \<Rightarrow> if has_root m c \<and> dot_free m c then (Inr c, st') else (Inl no_such_file, st')
         | (Inl e, st') \<Rightarrow> (Inl e, st'))) \<rparr>"

text \<open>The path \<^verbatim>\<open>C:\build\pathmaster_test.exe\<close>.\<close>

definition windows_exe :: path where
  "windows_exe = ''C:'' @ [CHR 0x5C] @ ''build'' @ [CHR 0x5C] @ ''pathmaster_test.exe''"

text \<open>A path of 1117 bytes, too long for a buffer of \<^verbatim>\<open>PATH_MAX\<close> bytes.\<close>

definition long_exe :: path where
  "long_exe = ''/'' @ replicate 1100 (CHR ''a'') @ ''/pathmaster_test''"

definition linux_build :: macros where
  "linux_build = \<lparr> defined_linux = True, defined_APPLE = False, defined_WIN32 = False \<rparr>"

definition apple_build :: macros where
  "apple_build = \<lparr> defined_linux = False, defined_APPLE = True, defined_WIN32 = False \<rparr>"

definition win32_build :: macros where
  "win32_build = \<lparr> defined_linux = False, defined_APPLE = False, defined_WIN32 = True \<rparr>"

definition other_build :: macros where
  "other_build = \<lparr> defined_linux = False, defined_APPLE = False, defined_WIN32 = False \<rparr>"

section \<open>Properties\<close>

subsection \<open>Exceptions, buffers and calls\<close>

lemma what_PathMasterError: "what (PathMasterError message) = ''PathMasterError: '' @ message"
  by (simp add: PathMasterError_def)

lemma cls_PathMasterError: "cls (PathMasterError message) = PathMasterError_class"
  by (simp add: PathMasterError_def)

lemma length_vector: "length (vector n) = n"
  by (simp add: vector_def)

lemma length_resize: "length (resize n buf) = n"
  by (simp add: resize_def)

lemma store_fits:
  "length out \<le> length buf \<Longrightarrow> store out buf = Some (out @ drop (length out) buf)"
  by (simp add: store_def)

lemma store_overflow: "length buf < length out \<Longrightarrow> store out buf = None"
  by (simp add: store_def)

lemma length_store: "store out buf = Some buf' \<Longrightarrow> length buf' = length buf"
  by (auto simp: store_def split: if_splits)

lemma c_str_terminated:
  "CHR 0x00 \<notin> set p \<Longrightarrow> c_str (p @ CHR 0x00 # rest) = Some p"
  by (induction p) (auto simp: c_str_def)

lemma c_str_defined: "CHR 0x00 \<in> set buf \<Longrightarrow> \<exists>p. c_str buf = Some p"
  by (simp add: c_str_def)

lemma c_str_undefined: "CHR 0x00 \<notin> set buf \<Longrightarrow> c_str buf = None"
  by (simp add: c_str_def)

lemma word_of_PATH_MAX: "(word_of_nat (length (vector PATH_MAX)) :: 32 word) = 1024"
  by (simp add: vector_def PATH_MAX_def)

lemma word_of_nat_PATH_MAX: "(word_of_nat PATH_MAX :: 32 word) = 1024"
  by (simp add: PATH_MAX_def)

lemma word_of_32767: "(word_of_nat (length (vector 32767)) :: 32 word) = 32767"
  by (simp add: vector_def)

lemma word_of_nat_32767: "(word_of_nat (32767 :: nat) :: 32 word) = 32767"
  by simp

lemmas sizes = length_vector length_resize word_of_PATH_MAX word_of_nat_PATH_MAX word_of_32767

lemma call_read_symlink_run:
  "read_symlink os p s = (r, s1) \<Longrightarrow>
   call_read_symlink os p (s, log) = (r, (s1, log @ [Ev_read_symlink p r]))"
  by (simp add: call_read_symlink_def)

lemma call_canonical_run:
  "canonical os p s = (r, s1) \<Longrightarrow>
   call_canonical os p (s, log) = (r, (s1, log @ [Ev_canonical p r]))"
  by (simp add: call_canonical_def)

lemma call_NSGetExecutablePath_run:
  "NSGetExecutablePath os sz s = ((rc, out, sz1), s1) \<Longrightarrow> length out \<le> length buf \<Longrightarrow>
   call_NSGetExecutablePath os buf sz (s, log) =
     Some ((rc, out @ drop (length out) buf, sz1),
           (s1, log @ [Ev_NSGetExecutablePath (length buf) sz rc sz1]))"
  by (simp add: call_NSGetExecutablePath_def store_fits)

lemma call_NSGetExecutablePath_overflow:
  "NSGetExecutablePath os sz s = ((rc, out, sz1), s1) \<Longrightarrow> length buf < length out \<Longrightarrow>
   call_NSGetExecutablePath os buf sz (s, log) = None"
  by (simp add: call_NSGetExecutablePath_def store_overflow)

lemma call_GetModuleFileNameW_run:
  "GetModuleFileNameW os n s = ((r, out), s1) \<Longrightarrow> length out \<le> length buf \<Longrightarrow>
   call_GetModuleFileNameW os buf n (s, log) =
     Some ((r, out @ drop (length out) buf), (s1, log @ [Ev_GetModuleFileNameW n r]))"
  by (simp add: call_GetModuleFileNameW_def store_fits)

lemma call_GetModuleFileNameW_overflow:
  "GetModuleFileNameW os n s = ((r, out), s1) \<Longrightarrow> length buf < length out \<Longrightarrow>
   call_GetModuleFileNameW os buf n (s, log) = None"
  by (simp add: call_GetModuleFileNameW_def store_overflow)

text \<open>\<^verbatim>\<open>buffer.resize(n)\<close> throws, or it leaves a vector of \<open>n\<close> elements.\<close>

lemma do_resize_cases [case_names throws resized]:
  obtains
    (throws) e s2 where
      "length buf < n" and "allocate os n s = (Some e, s2)"
      and "\<And>log. do_resize os n buf (s, log) =
             (Inl e, (s2, log @ [Ev_resize (length buf) n (Some e)]))"
  | (resized) s2 where
      "step os s (Ev_resize (length buf) n None) s2"
      and "\<And>log. do_resize os n buf (s, log) =
             (Inr (resize n buf), (s2, log @ [Ev_resize (length buf) n None]))"
proof (cases "n \<le> length buf")
  case True
  then show ?thesis
    by (intro resized [of s]) (simp_all add: do_resize_def)
next
  case False
  obtain a s2 where a: "allocate os n s = (a, s2)"
    by (cases "allocate os n s")
  show ?thesis
  proof (cases a)
    case None
    with a False show ?thesis
      by (intro resized [of s2]) (simp_all add: do_resize_def)
  next
    case (Some e)
    with a False show ?thesis
      by (intro throws [of e s2]) (simp_all add: do_resize_def)
  qed
qed

lemma catch_rethrow_None: "catch_rethrow label None = None"
  by (simp add: catch_rethrow_def)

lemma catch_rethrow_Inl:
  "catch_rethrow label (Some (Inl e, w)) = Some (Inl (PathMasterError (label @ what e)), w)"
  by (simp add: catch_rethrow_def)

lemma catch_rethrow_Inr:
  "catch_rethrow label (Some (Inr p, w)) = Some (Inr p, w)"
  by (simp add: catch_rethrow_def)

lemma get_executable_path_linux:
  "defined_linux m \<Longrightarrow>
   get_executable_path m os w =
     catch_rethrow ''Failed to get the executable path on GNU/Linux: '' (Some (linux_try os w))"
  by (simp add: get_executable_path_def)

lemma get_executable_path_apple:
  "\<not> defined_linux m \<Longrightarrow> defined_APPLE m \<Longrightarrow>
   get_executable_path m os w =
     catch_rethrow ''Failed to canonicalize the path on MacOS: '' (apple_try os w)"
  by (simp add: get_executable_path_def)

lemma get_executable_path_windows:
  "windows_build m \<Longrightarrow>
   get_executable_path m os w =
     catch_rethrow ''Failed to canonicalize the path on Windows: '' (windows_try os w)"
  by (simp add: get_executable_path_def windows_build_def)

lemma get_executable_path_other:
  "\<not> defined_linux m \<Longrightarrow> \<not> defined_APPLE m \<Longrightarrow> \<not> defined_WIN32 m \<Longrightarrow>
   get_executable_path m os w = Some (Inl (PathMasterError ''Unsupported platform''), w)"
  by (simp add: get_executable_path_def)

lemma build_cases [case_names linux apple windows other]:
  obtains (linux) "defined_linux m"
    | (apple) "\<not> defined_linux m" and "defined_APPLE m"
    | (windows) "windows_build m"
    | (other) "\<not> defined_linux m" and "\<not> defined_APPLE m" and "\<not> defined_WIN32 m"
  by (auto simp: windows_build_def)

subsection \<open>The branches, case by case\<close>

lemma catch_rethrow_rewrap: "catch_rethrow label (Some (c, w)) = Some (rewrap label c, w)"
  by (cases c) (simp_all add: catch_rethrow_def rewrap_def)

lemma linux_cases [consumes 1, case_names link_throws canonical]:
  assumes "defined_linux m"
  obtains
    (link_throws) e s1 where
      "read_symlink os ''/proc/self/exe'' s = (Inl e, s1)"
      and "\<And>log. get_executable_path m os (s, log) =
             Some (Inl (PathMasterError (''Failed to get the executable path on GNU/Linux: '' @ what e)),
                   (s1, log @ [Ev_read_symlink ''/proc/self/exe'' (Inl e)]))"
  | (canonical) link s1 c s2 where
      "read_symlink os ''/proc/self/exe'' s = (Inr link, s1)"
      and "canonical os link s1 = (c, s2)"
      and "\<And>log. get_executable_path m os (s, log) =
             Some (rewrap ''Failed to get the executable path on GNU/Linux: '' c,
                   (s2, log @ [Ev_read_symlink ''/proc/self/exe'' (Inr link), Ev_canonical link c]))"
proof -
  obtain r1 s1 where l: "read_symlink os ''/proc/self/exe'' s = (r1, s1)"
    by (cases "read_symlink os ''/proc/self/exe'' s")
  show ?thesis
  proof (cases r1)
    case (Inl e)
    with l assms show ?thesis
      by (intro link_throws [of e s1])
        (simp_all add: get_executable_path_linux linux_try_def call_read_symlink_run catch_rethrow_Inl)
  next
    case (Inr link)
    obtain c s2 where c: "canonical os link s1 = (c, s2)"
      by (cases "canonical os link s1")
    from l Inr c assms show ?thesis
      by (intro canonical [of link s1 c s2])
        (simp_all add: get_executable_path_linux linux_try_def call_read_symlink_run
          call_canonical_run catch_rethrow_rewrap)
  qed
qed

lemma apple_query_cases [case_names overflow first resize_throws retry_overflow retry]:
  obtains
    (overflow) rc out n1 s1 where
      "NSGetExecutablePath os 1024 s = ((rc, out, n1), s1)"
      and "PATH_MAX < length out"
      and "\<And>log. apple_query os (s, log) = None"
  | (first) out n1 s1 where
      "NSGetExecutablePath os 1024 s = ((0, out, n1), s1)"
      and "length out \<le> PATH_MAX"
      and "\<And>log. apple_query os (s, log) =
             Some (Inr (out @ drop (length out) (vector PATH_MAX)),
                   (s1, log @ [Ev_NSGetExecutablePath PATH_MAX 1024 0 n1]))"
  | (resize_throws) rc out n1 s1 e s2 where
      "NSGetExecutablePath os 1024 s = ((rc, out, n1), s1)"
      and "rc \<noteq> 0" and "length out \<le> PATH_MAX"
      and "PATH_MAX < unat n1" and "allocate os (unat n1) s1 = (Some e, s2)"
      and "\<And>log. apple_query os (s, log) =
             Some (Inl e,
                   (s2, log @ [Ev_NSGetExecutablePath PATH_MAX 1024 rc n1,
                               Ev_resize PATH_MAX (unat n1) (Some e)]))"
  | (retry_overflow) rc out n1 s1 s2 rc' out2 n3 s3 where
      "NSGetExecutablePath os 1024 s = ((rc, out, n1), s1)"
      and "rc \<noteq> 0" and "length out \<le> PATH_MAX"
      and "step os s1 (Ev_resize PATH_MAX (unat n1) None) s2"
      and "NSGetExecutablePath os n1 s2 = ((rc', out2, n3), s3)"
      and "unat n1 < length out2"
      and "\<And>log. apple_query os (s, log) = None"
  | (retry) rc out n1 s1 s2 rc' out2 n3 s3 where
      "NSGetExecutablePath os 1024 s = ((rc, out, n1), s1)"
      and "rc \<noteq> 0" and "length out \<le> PATH_MAX"
      and "step os s1 (Ev_resize PATH_MAX (unat n1) None) s2"
      and "NSGetExecutablePath os n1 s2 = ((rc', out2, n3), s3)"
      and "length out2 \<le> unat n1"
      and "\<And>log. apple_query os (s, log) =
             Some (if rc' \<noteq> 0
                   then Inl (PathMasterError
                     ''Failed to get the executable path on MacOS after resizing the buffer'')
                   else Inr (out2 @ drop (length out2)
                              (resize (unat n1) (out @ drop (length out) (vector PATH_MAX)))),
                   (s3, log @ [Ev_NSGetExecutablePath PATH_MAX 1024 rc n1,
                               Ev_resize PATH_MAX (unat n1) None,
                               Ev_NSGetExecutablePath (unat n1) n1 rc' n3]))"
proof -
  obtain rc out n1 s1 where q1: "NSGetExecutablePath os 1024 s = ((rc, out, n1), s1)"
    by (cases "NSGetExecutablePath os 1024 s") auto
  show ?thesis
  proof (cases "length out \<le> PATH_MAX")
    case False
    then have "length (vector PATH_MAX) < length out"
      by (simp add: length_vector)
    from call_NSGetExecutablePath_overflow [OF q1 this] False q1 show ?thesis
      by (intro overflow [of rc out n1 s1]) (simp_all add: apple_query_def Let_def sizes)
  next
    case True
    then have fit: "length out \<le> length (vector PATH_MAX)"
      by (simp add: length_vector)
    note c1 = call_NSGetExecutablePath_run [OF q1 fit]
    let ?b1 = "out @ drop (length out) (vector PATH_MAX)"
    have len1: "length ?b1 = PATH_MAX"
      using True by (simp add: length_vector)
    show ?thesis
    proof (cases "rc = 0")
      case rc: True
      with q1 True c1 show ?thesis
        by (intro first [of out n1 s1])
          (simp_all add: apple_query_def Let_def sizes)
    next
      case rc: False
      show ?thesis
      proof (cases rule: do_resize_cases [of ?b1 "unat n1" os s1])
        case (throws e s2)
        with q1 rc True c1 len1 show ?thesis
          by (intro resize_throws [of rc out n1 s1 e s2])
            (simp_all add: apple_query_def Let_def sizes)
      next
        case (resized s2)
        obtain rc' out2 n3 s3 where q2: "NSGetExecutablePath os n1 s2 = ((rc', out2, n3), s3)"
          by (cases "NSGetExecutablePath os n1 s2") auto
        let ?b2 = "resize (unat n1) ?b1"
        show ?thesis
        proof (cases "length out2 \<le> unat n1")
          case fit2: False
          then have "length ?b2 < length out2"
            by (simp add: length_resize)
          from call_NSGetExecutablePath_overflow [OF q2 this] q1 rc True c1 resized len1 q2 fit2
          show ?thesis
            by (intro retry_overflow [of rc out n1 s1 s2 rc' out2 n3 s3])
              (simp_all add: apple_query_def Let_def sizes)
        next
          case fit2: True
          then have "length out2 \<le> length ?b2"
            by (simp add: length_resize)
          from call_NSGetExecutablePath_run [OF q2 this] q1 rc True c1 resized len1 q2 fit2
          show ?thesis
            by (intro retry [of rc out n1 s1 s2 rc' out2 n3 s3])
              (simp_all add: apple_query_def Let_def sizes)
        qed
      qed
    qed
  qed
qed

lemma memory_safe_query:
  "memory_safe os \<Longrightarrow> NSGetExecutablePath os n st = ((rc, out, n'), st') \<Longrightarrow>
   length out \<le> unat n \<and> (rc = 0 \<longrightarrow> CHR 0x00 \<in> set out)"
  unfolding memory_safe_def by blast

lemma memory_safe_module:
  "memory_safe os \<Longrightarrow> GetModuleFileNameW os n st = ((r, out), st') \<Longrightarrow>
   length out \<le> unat n \<and> (r \<noteq> 0 \<longrightarrow> (\<forall>rest. path_ctor os (out @ rest) r \<noteq> None))"
  unfolding memory_safe_def by blast

lemma apple_cases [consumes 2, case_names undefined first resize_throws retry_fails retry]:
  assumes "\<not> defined_linux m" and "defined_APPLE m"
  obtains
    (undefined)
      "\<not> memory_safe os"
      and "\<And>log. get_executable_path m os (s, log) = None"
  | (first) out n1 s1 q c s2 where
      "NSGetExecutablePath os 1024 s = ((0, out, n1), s1)"
      and "length out \<le> PATH_MAX"
      and "c_str (out @ drop (length out) (vector PATH_MAX)) = Some q"
      and "canonical os q s1 = (c, s2)"
      and "\<And>log. get_executable_path m os (s, log) =
             Some (rewrap ''Failed to canonicalize the path on MacOS: '' c,
                   (s2, log @ [Ev_NSGetExecutablePath PATH_MAX 1024 0 n1, Ev_canonical q c]))"
  | (resize_throws) rc out n1 s1 e s2 where
      "NSGetExecutablePath os 1024 s = ((rc, out, n1), s1)"
      and "rc \<noteq> 0" and "length out \<le> PATH_MAX"
      and "PATH_MAX < unat n1" and "allocate os (unat n1) s1 = (Some e, s2)"
      and "\<And>log. get_executable_path m os (s, log) =
             Some (Inl (PathMasterError (''Failed to canonicalize the path on MacOS: '' @ what e)),
                   (s2, log @ [Ev_NSGetExecutablePath PATH_MAX 1024 rc n1,
                               Ev_resize PATH_MAX (unat n1) (Some e)]))"
  | (retry_fails) rc out n1 s1 s2 rc' out2 n3 s3 where
      "NSGetExecutablePath os 1024 s = ((rc, out, n1), s1)"
      and "rc \<noteq> 0" and "length out \<le> PATH_MAX"
      and "step os s1 (Ev_resize PATH_MAX (unat n1) None) s2"
      and "NSGetExecutablePath os n1 s2 = ((rc', out2, n3), s3)"
      and "length out2 \<le> unat n1" and "rc' \<noteq> 0"
      and "\<And>log. get_executable_path m os (s, log) =
             Some (Inl (PathMasterError (''Failed to canonicalize the path on MacOS: '' @
                     what (PathMasterError
                       ''Failed to get the executable path on MacOS after resizing the buffer''))),
                   (s3, log @ [Ev_NSGetExecutablePath PATH_MAX 1024 rc n1,
                               Ev_resize PATH_MAX (unat n1) None,
                               Ev_NSGetExecutablePath (unat n1) n1 rc' n3]))"
  | (retry) rc out n1 s1 s2 out2 n3 s3 q c s4 where
      "NSGetExecutablePath os 1024 s = ((rc, out, n1), s1)"
      and "rc \<noteq> 0" and "length out \<le> PATH_MAX"
      and "step os s1 (Ev_resize PATH_MAX (unat n1) None) s2"
      and "NSGetExecutablePath os n1 s2 = ((0, out2, n3), s3)"
      and "length out2 \<le> unat n1"
      and "c_str (out2 @ drop (length out2)
                   (resize (unat n1) (out @ drop (length out) (vector PATH_MAX)))) = Some q"
      and "canonical os q s3 = (c, s4)"
      and "\<And>log. get_executable_path m os (s, log) =
             Some (rewrap ''Failed to canonicalize the path on MacOS: '' c,
                   (s4, log @ [Ev_NSGetExecutablePath PATH_MAX 1024 rc n1,
                               Ev_resize PATH_MAX (unat n1) None,
                               Ev_NSGetExecutablePath (unat n1) n1 0 n3,
                               Ev_canonical q c]))"
proof (cases rule: apple_query_cases [of os s])
  case (overflow rc out n1 s1)
  have "\<not> memory_safe os"
  proof
    assume "memory_safe os"
    from memory_safe_query [OF this overflow(1)] overflow(2) show False
      by (simp add: PATH_MAX_def)
  qed
  with overflow assms show ?thesis
    by (intro undefined) (simp_all add: get_executable_path_apple apple_try_def catch_rethrow_None)
next
  case (first out n1 s1)
  let ?b = "out @ drop (length out) (vector PATH_MAX)"
  show ?thesis
  proof (cases "c_str ?b")
    case None
    have "\<not> memory_safe os"
    proof
      assume "memory_safe os"
      from memory_safe_query [OF this first(1)] have "CHR 0x00 \<in> set ?b" by simp
      with None show False by (simp add: c_str_def)
    qed
    with first None assms show ?thesis
      by (intro undefined) (simp_all add: get_executable_path_apple apple_try_def catch_rethrow_None)
  next
    case (Some q)
    obtain c s2 where c: "canonical os q s1 = (c, s2)"
      by (cases "canonical os q s1")
    from first Some c assms show ?thesis
      by (intro that(2) [of out n1 s1 q c s2])
        (simp_all add: get_executable_path_apple apple_try_def call_canonical_run catch_rethrow_rewrap)
  qed
next
  case (resize_throws rc out n1 s1 e s2)
  with assms show ?thesis
    by (intro that(3) [of rc out n1 s1 e s2])
      (simp_all add: get_executable_path_apple apple_try_def catch_rethrow_Inl)
next
  case (retry_overflow rc out n1 s1 s2 rc' out2 n3 s3)
  have "\<not> memory_safe os"
  proof
    assume "memory_safe os"
    from memory_safe_query [OF this retry_overflow(5)] retry_overflow(6) show False
      by simp
  qed
  with retry_overflow assms show ?thesis
    by (intro undefined) (simp_all add: get_executable_path_apple apple_try_def catch_rethrow_None)
next
  case (retry rc out n1 s1 s2 rc' out2 n3 s3)
  let ?b = "out2 @ drop (length out2) (resize (unat n1) (out @ drop (length out) (vector PATH_MAX)))"
  show ?thesis
  proof (cases "rc' = 0")
    case False
    with retry assms show ?thesis
      by (intro retry_fails [of rc out n1 s1 s2 rc' out2 n3 s3])
        (simp_all add: get_executable_path_apple apple_try_def catch_rethrow_Inl)
  next
    case True
    show ?thesis
    proof (cases "c_str ?b")
      case None
      have "\<not> memory_safe os"
      proof
        assume "memory_safe os"
        from memory_safe_query [OF this retry(5)] True have "CHR 0x00 \<in> set ?b" by simp
        with None show False by (simp add: c_str_def)
      qed
      with retry True None assms show ?thesis
        by (intro undefined) (simp_all add: get_executable_path_apple apple_try_def catch_rethrow_None)
    next
      case (Some q)
      obtain c s4 where c: "canonical os q s3 = (c, s4)"
        by (cases "canonical os q s3")
      from retry True Some c assms show ?thesis
        by (intro that(5) [of rc out n1 s1 s2 out2 n3 s3 q c s4])
          (simp_all add: get_executable_path_apple apple_try_def call_canonical_run catch_rethrow_rewrap)
    qed
  qed
qed

lemma windows_cases [consumes 1, case_names undefined zero canonical]:
  assumes "windows_build m"
  obtains
    (undefined)
      "\<not> memory_safe os"
      and "\<And>log. get_executable_path m os (s, log) = None"
  | (zero) out s1 where
      "GetModuleFileNameW os 32767 s = ((0, out), s1)"
      and "length out \<le> 32767"
      and "\<And>log. get_executable_path m os (s, log) =
             Some (Inl (PathMasterError (''Failed to canonicalize the path on Windows: '' @
                     what (PathMasterError ''Failed to get the executable path on Windows''))),
                   (s1, log @ [Ev_GetModuleFileNameW 32767 0]))"
  | (canonical) n out s1 q c s2 where
      "GetModuleFileNameW os 32767 s = ((n, out), s1)"
      and "n \<noteq> 0" and "length out \<le> 32767"
      and "path_ctor os (out @ drop (length out) (vector 32767)) n = Some q"
      and "canonical os q s1 = (c, s2)"
      and "\<And>log. get_executable_path m os (s, log) =
             Some (rewrap ''Failed to canonicalize the path on Windows: '' c,
                   (s2, log @ [Ev_GetModuleFileNameW 32767 n, Ev_canonical q c]))"
proof -
  obtain n out s1 where g: "GetModuleFileNameW os 32767 s = ((n, out), s1)"
    by (cases "GetModuleFileNameW os 32767 s") auto
  let ?b = "out @ drop (length out) (vector 32767)"
  show ?thesis
  proof (cases "length out \<le> 32767")
    case False
    then have "length (vector 32767) < length out"
      by (simp add: length_vector)
    note over = call_GetModuleFileNameW_overflow [OF g this]
    have "\<not> memory_safe os"
    proof
      assume "memory_safe os"
      from memory_safe_module [OF this g] False show False by simp
    qed
    with over assms show ?thesis
      by (intro undefined)
        (simp_all add: get_executable_path_windows windows_try_def Let_def sizes catch_rethrow_None)
  next
    case True
    then have "length out \<le> length (vector 32767)"
      by (simp add: length_vector)
    note run = call_GetModuleFileNameW_run [OF g this]
    show ?thesis
    proof (cases "n = 0")
      case n: True
      with g True run assms show ?thesis
        by (intro zero [of out s1])
          (simp_all add: get_executable_path_windows windows_try_def Let_def sizes catch_rethrow_Inl)
    next
      case n: False
      show ?thesis
      proof (cases "path_ctor os ?b n")
        case None
        have "\<not> memory_safe os"
        proof
          assume "memory_safe os"
          from memory_safe_module [OF this g] n
          have "path_ctor os ?b n \<noteq> None" by blast
          with None show False by simp
        qed
        with run n None assms show ?thesis
          by (intro undefined)
            (simp_all add: get_executable_path_windows windows_try_def Let_def sizes catch_rethrow_None)
      next
        case (Some q)
        obtain c s2 where c: "canonical os q s1 = (c, s2)"
          by (cases "canonical os q s1")
        from g True run n Some c assms show ?thesis
          by (intro that(3) [of n out s1 q c s2])
            (simp_all add: get_executable_path_windows windows_try_def Let_def sizes
              call_canonical_run catch_rethrow_rewrap)
      qed
    qed
  qed
qed

subsection \<open>The log of a run\<close>

lemma replay_Nil: "replay os s [] s"
  by simp

lemma replay_Cons: "step os s ev s1 \<Longrightarrow> replay os s1 evs s' \<Longrightarrow> replay os s (ev # evs) s'"
  by auto

lemma step_read_symlink: "read_symlink os p s = (r, s') \<Longrightarrow> step os s (Ev_read_symlink p r) s'"
  by simp

lemma step_canonical: "canonical os p s = (r, s') \<Longrightarrow> step os s (Ev_canonical p r) s'"
  by simp

lemma step_query:
  "NSGetExecutablePath os n s = ((rc, out, n'), s') \<Longrightarrow> length out \<le> k \<Longrightarrow>
   step os s (Ev_NSGetExecutablePath k n rc n') s'"
  by auto

lemma step_resize_throws:
  "k < n \<Longrightarrow> allocate os n s = (Some e, s') \<Longrightarrow> step os s (Ev_resize k n (Some e)) s'"
  by simp

lemma step_module:
  "GetModuleFileNameW os n s = ((r, out), s') \<Longrightarrow> length out \<le> unat n \<Longrightarrow>
   step os s (Ev_GetModuleFileNameW n r) s'"
  by auto

lemma unmodified_step: "unmodified os s \<Longrightarrow> step os s ev s' \<Longrightarrow> s' = s"
  by (cases ev) (auto simp: unmodified_def split: if_splits dest: arg_cong [where f = snd])

lemma unmodified_replay: "unmodified os s \<Longrightarrow> replay os s evs s' \<Longrightarrow> s' = s"
proof (induction evs)
  case Nil
  then show ?case by simp
next
  case (Cons ev evs)
  from Cons.prems(2) obtain s1 where st: "step os s ev s1" and r: "replay os s1 evs s'"
    by auto
  from Cons.prems(1) st have "s1 = s"
    by (rule unmodified_step)
  with r Cons.IH Cons.prems(1) show ?case by simp
qed

text \<open>What a run that ends well says: a path that \<^verbatim>\<open>canonical\<close> returned, or a
  \<^verbatim>\<open>PathMasterError\<close> with the text of what was caught.\<close>

lemma rewrap_outcome:
  assumes "canonical os q st = (c, s')"
    and "new = pre @ [Ev_canonical q c]"
    and "list_all (\<lambda>ev. thrown ev = None) pre"
  shows "case rewrap label c of
           Inl e \<Rightarrow> cls e = PathMasterError_class \<and> rethrown_as new e
         | Inr p \<Rightarrow> returned_by_canonical new p \<and> (\<exists>q st. canonical os q st = (Inr p, s'))"
proof (cases c)
  case (Inl e)
  with assms show ?thesis
    by (simp add: rewrap_def cls_PathMasterError rethrown_as_def what_PathMasterError suffix_def)
next
  case (Inr p)
  with assms show ?thesis
    by (auto simp: rewrap_def returned_by_canonical_def)
qed

lemma get_executable_path_outcome [case_names undefined defined]:
  obtains
    (undefined)
      "\<not> memory_safe os"
      and "\<And>log. get_executable_path m os (s, log) = None"
  | (defined) r s' new where
      "\<And>log. get_executable_path m os (s, log) = Some (r, (s', log @ new))"
      and "replay os s new s'"
      and "case r of
             Inl e \<Rightarrow> cls e = PathMasterError_class \<and> rethrown_as new e
           | Inr p \<Rightarrow> returned_by_canonical new p \<and> (\<exists>q st. canonical os q st = (Inr p, s'))"
proof (cases rule: build_cases [of m])
  case linux
  then show ?thesis
  proof (cases rule: linux_cases [of m os s])
    case (link_throws e s1)
    show ?thesis
    proof (rule defined)
      show "\<And>log. get_executable_path m os (s, log) =
          Some (Inl (PathMasterError (''Failed to get the executable path on GNU/Linux: '' @ what e)),
                (s1, log @ [Ev_read_symlink ''/proc/self/exe'' (Inl e)]))"
        by (rule link_throws(2))
      show "replay os s [Ev_read_symlink ''/proc/self/exe'' (Inl e)] s1"
        using link_throws(1) by simp
      show "case Inl (PathMasterError (''Failed to get the executable path on GNU/Linux: '' @ what e)) of
              Inl e' \<Rightarrow> cls e' = PathMasterError_class
                \<and> rethrown_as [Ev_read_symlink ''/proc/self/exe'' (Inl e)] e'
            | Inr p \<Rightarrow> returned_by_canonical [Ev_read_symlink ''/proc/self/exe'' (Inl e)] p
                \<and> (\<exists>q st. canonical os q st = (Inr p, s1))"
        by (simp add: cls_PathMasterError rethrown_as_def what_PathMasterError suffix_def)
    qed
  next
    case (canonical link s1 c s2)
    show ?thesis
    proof (rule defined)
      show "\<And>log. get_executable_path m os (s, log) =
          Some (rewrap ''Failed to get the executable path on GNU/Linux: '' c,
                (s2, log @ [Ev_read_symlink ''/proc/self/exe'' (Inr link), Ev_canonical link c]))"
        by (rule canonical(3))
      show "replay os s [Ev_read_symlink ''/proc/self/exe'' (Inr link), Ev_canonical link c] s2"
        using canonical(1,2) by simp
      show "case rewrap ''Failed to get the executable path on GNU/Linux: '' c of
              Inl e' \<Rightarrow> cls e' = PathMasterError_class
                \<and> rethrown_as [Ev_read_symlink ''/proc/self/exe'' (Inr link), Ev_canonical link c] e'
            | Inr p \<Rightarrow> returned_by_canonical
                  [Ev_read_symlink ''/proc/self/exe'' (Inr link), Ev_canonical link c] p
                \<and> (\<exists>q st. canonical os q st = (Inr p, s2))"
        by (rule rewrap_outcome [OF canonical(2), where pre = "[Ev_read_symlink ''/proc/self/exe'' (Inr link)]"]) simp_all
    qed
  qed
next
  case apple
  then show ?thesis
  proof (cases rule: apple_cases [of m os s])
    case undefined
    then show ?thesis by (rule that(1))
  next
    case (first out n1 s1 q c s2)
    show ?thesis
    proof (rule defined)
      show "\<And>log. get_executable_path m os (s, log) =
          Some (rewrap ''Failed to canonicalize the path on MacOS: '' c,
                (s2, log @ [Ev_NSGetExecutablePath PATH_MAX 1024 0 n1, Ev_canonical q c]))"
        by (rule first(5))
      show "replay os s [Ev_NSGetExecutablePath PATH_MAX 1024 0 n1, Ev_canonical q c] s2"
        by (rule replay_Cons [OF step_query [OF first(1,2)]
              replay_Cons [OF step_canonical [OF first(4)] replay_Nil]])
      show "case rewrap ''Failed to canonicalize the path on MacOS: '' c of
              Inl e' \<Rightarrow> cls e' = PathMasterError_class
                \<and> rethrown_as [Ev_NSGetExecutablePath PATH_MAX 1024 0 n1, Ev_canonical q c] e'
            | Inr p \<Rightarrow> returned_by_canonical
                  [Ev_NSGetExecutablePath PATH_MAX 1024 0 n1, Ev_canonical q c] p
                \<and> (\<exists>q st. canonical os q st = (Inr p, s2))"
        by (rule rewrap_outcome [OF first(4), where pre = "[Ev_NSGetExecutablePath PATH_MAX 1024 0 n1]"]) simp_all
    qed
  next
    case (resize_throws rc out n1 s1 e s2)
    show ?thesis
    proof (rule defined)
      show "\<And>log. get_executable_path m os (s, log) =
          Some (Inl (PathMasterError (''Failed to canonicalize the path on MacOS: '' @ what e)),
                (s2, log @ [Ev_NSGetExecutablePath PATH_MAX 1024 rc n1,
                            Ev_resize PATH_MAX (unat n1) (Some e)]))"
        by (rule resize_throws(6))
      show "replay os s [Ev_NSGetExecutablePath PATH_MAX 1024 rc n1,
                         Ev_resize PATH_MAX (unat n1) (Some e)] s2"
        by (rule replay_Cons [OF step_query [OF resize_throws(1,3)]
              replay_Cons [OF step_resize_throws [OF resize_throws(4,5)] replay_Nil]])
      show "case Inl (PathMasterError (''Failed to canonicalize the path on MacOS: '' @ what e)) of
              Inl e' \<Rightarrow> cls e' = PathMasterError_class
                \<and> rethrown_as [Ev_NSGetExecutablePath PATH_MAX 1024 rc n1,
                                Ev_resize PATH_MAX (unat n1) (Some e)] e'
            | Inr p \<Rightarrow> returned_by_canonical
                  [Ev_NSGetExecutablePath PATH_MAX 1024 rc n1, Ev_resize PATH_MAX (unat n1) (Some e)] p
                \<and> (\<exists>q st. canonical os q st = (Inr p, s2))"
        by (simp add: cls_PathMasterError rethrown_as_def what_PathMasterError suffix_def)
    qed
  next
    case (retry_fails rc out n1 s1 s2 rc' out2 n3 s3)
    show ?thesis
    proof (rule defined)
      show "\<And>log. get_executable_path m os (s, log) =
          Some (Inl (PathMasterError (''Failed to canonicalize the path on MacOS: '' @
                  what (PathMasterError
                    ''Failed to get the executable path on MacOS after resizing the buffer''))),
                (s3, log @ [Ev_NSGetExecutablePath PATH_MAX 1024 rc n1,
                            Ev_resize PATH_MAX (unat n1) None,
                            Ev_NSGetExecutablePath (unat n1) n1 rc' n3]))"
        by (rule retry_fails(8))
      show "replay os s [Ev_NSGetExecutablePath PATH_MAX 1024 rc n1,
                         Ev_resize PATH_MAX (unat n1) None,
                         Ev_NSGetExecutablePath (unat n1) n1 rc' n3] s3"
        by (rule replay_Cons [OF step_query [OF retry_fails(1,3)]
              replay_Cons [OF retry_fails(4)
                replay_Cons [OF step_query [OF retry_fails(5,6)] replay_Nil]]])
      show "case Inl (PathMasterError (''Failed to canonicalize the path on MacOS: '' @
                  what (PathMasterError
                    ''Failed to get the executable path on MacOS after resizing the buffer''))) of
              Inl e' \<Rightarrow> cls e' = PathMasterError_class
                \<and> rethrown_as [Ev_NSGetExecutablePath PATH_MAX 1024 rc n1,
                                Ev_resize PATH_MAX (unat n1) None,
                                Ev_NSGetExecutablePath (unat n1) n1 rc' n3] e'
            | Inr p \<Rightarrow> returned_by_canonical
                  [Ev_NSGetExecutablePath PATH_MAX 1024 rc n1, Ev_resize PATH_MAX (unat n1) None,
                   Ev_NSGetExecutablePath (unat n1) n1 rc' n3] p
                \<and> (\<exists>q st. canonical os q st = (Inr p, s3))"
        by (simp add: cls_PathMasterError rethrown_as_def)
    qed
  next
    case (retry rc out n1 s1 s2 out2 n3 s3 q c s4)
    show ?thesis
    proof (rule defined)
      show "\<And>log. get_executable_path m os (s, log) =
          Some (rewrap ''Failed to canonicalize the path on MacOS: '' c,
                (s4, log @ [Ev_NSGetExecutablePath PATH_MAX 1024 rc n1,
                            Ev_resize PATH_MAX (unat n1) None,
                            Ev_NSGetExecutablePath (unat n1) n1 0 n3,
                            Ev_canonical q c]))"
        by (rule retry(9))
      show "replay os s [Ev_NSGetExecutablePath PATH_MAX 1024 rc n1,
                         Ev_resize PATH_MAX (unat n1) None,
                         Ev_NSGetExecutablePath (unat n1) n1 0 n3,
                         Ev_canonical q c] s4"
        by (rule replay_Cons [OF step_query [OF retry(1,3)]
              replay_Cons [OF retry(4)
                replay_Cons [OF step_query [OF retry(5,6)]
                  replay_Cons [OF step_canonical [OF retry(8)] replay_Nil]]]])
      show "case rewrap ''Failed to canonicalize the path on MacOS: '' c of
              Inl e' \<Rightarrow> cls e' = PathMasterError_class
                \<and> rethrown_as [Ev_NSGetExecutablePath PATH_MAX 1024 rc n1,
                                Ev_resize PATH_MAX (unat n1) None,
                                Ev_NSGetExecutablePath (unat n1) n1 0 n3,
                                Ev_canonical q c] e'
            | Inr p \<Rightarrow> returned_by_canonical
                  [Ev_NSGetExecutablePath PATH_MAX 1024 rc n1, Ev_resize PATH_MAX (unat n1) None,
                   Ev_NSGetExecutablePath (unat n1) n1 0 n3, Ev_canonical q c] p
                \<and> (\<exists>q st. canonical os q st = (Inr p, s4))"
        by (rule rewrap_outcome [OF retry(8), where pre = "[Ev_NSGetExecutablePath PATH_MAX 1024 rc n1, Ev_resize PATH_MAX (unat n1) None,
                 Ev_NSGetExecutablePath (unat n1) n1 0 n3]"]) simp_all
    qed
  qed
next
  case windows
  then show ?thesis
  proof (cases rule: windows_cases [of m os s])
    case undefined
    then show ?thesis by (rule that(1))
  next
    case (zero out s1)
    show ?thesis
    proof (rule defined)
      show "\<And>log. get_executable_path m os (s, log) =
          Some (Inl (PathMasterError (''Failed to canonicalize the path on Windows: '' @
                  what (PathMasterError ''Failed to get the executable path on Windows''))),
                (s1, log @ [Ev_GetModuleFileNameW 32767 0]))"
        by (rule zero(3))
      show "replay os s [Ev_GetModuleFileNameW 32767 0] s1"
      proof -
        from zero(2) have "length out \<le> unat (32767 :: 32 word)" by simp
        from step_module [OF zero(1) this] show ?thesis
          by (rule replay_Cons [OF _ replay_Nil])
      qed
      show "case Inl (PathMasterError (''Failed to canonicalize the path on Windows: '' @
                  what (PathMasterError ''Failed to get the executable path on Windows''))) of
              Inl e' \<Rightarrow> cls e' = PathMasterError_class
                \<and> rethrown_as [Ev_GetModuleFileNameW 32767 0] e'
            | Inr p \<Rightarrow> returned_by_canonical [Ev_GetModuleFileNameW 32767 0] p
                \<and> (\<exists>q st. canonical os q st = (Inr p, s1))"
        by (simp add: cls_PathMasterError rethrown_as_def)
    qed
  next
    case (canonical n out s1 q c s2)
    show ?thesis
    proof (rule defined)
      show "\<And>log. get_executable_path m os (s, log) =
          Some (rewrap ''Failed to canonicalize the path on Windows: '' c,
                (s2, log @ [Ev_GetModuleFileNameW 32767 n, Ev_canonical q c]))"
        by (rule canonical(6))
      show "replay os s [Ev_GetModuleFileNameW 32767 n, Ev_canonical q c] s2"
      proof -
        from canonical(3) have "length out \<le> unat (32767 :: 32 word)" by simp
        from step_module [OF canonical(1) this] show ?thesis
          by (rule replay_Cons [OF _ replay_Cons [OF step_canonical [OF canonical(5)] replay_Nil]])
      qed
      show "case rewrap ''Failed to canonicalize the path on Windows: '' c of
              Inl e' \<Rightarrow> cls e' = PathMasterError_class
                \<and> rethrown_as [Ev_GetModuleFileNameW 32767 n, Ev_canonical q c] e'
            | Inr p \<Rightarrow> returned_by_canonical [Ev_GetModuleFileNameW 32767 n, Ev_canonical q c] p
                \<and> (\<exists>q st. canonical os q st = (Inr p, s2))"
        by (rule rewrap_outcome [OF canonical(5), where pre = "[Ev_GetModuleFileNameW 32767 n]"]) simp_all
    qed
  qed
next
  case other
  show ?thesis
  proof (rule defined)
    show "\<And>log. get_executable_path m os (s, log) =
        Some (Inl (PathMasterError ''Unsupported platform''), (s, log @ []))"
      using other by (simp add: get_executable_path_other)
    show "replay os s [] s" by simp
    show "case Inl (PathMasterError ''Unsupported platform'') of
            Inl e' \<Rightarrow> cls e' = PathMasterError_class \<and> rethrown_as [] e'
          | Inr p \<Rightarrow> returned_by_canonical [] p \<and> (\<exists>q st. canonical os q st = (Inr p, s))"
      by (simp add: cls_PathMasterError rethrown_as_def)
  qed
qed

subsection \<open>The example hosts, evaluated\<close>

lemmas run_defs =
  get_executable_path_def catch_rethrow_def linux_try_def apple_try_def apple_query_def
  windows_try_def call_read_symlink_def call_canonical_def call_NSGetExecutablePath_def
  call_GetModuleFileNameW_def do_resize_def store_def Let_def sizes

lemma failed_query_windows:
  "get_executable_path win32_build (host win32_build) (([], None), log) =
     Some (Inl (Exn PathMasterError_class
        ''PathMasterError: Failed to canonicalize the path on Windows: PathMasterError: Failed to get the executable path on Windows''),
      (([], None), log @ [Ev_GetModuleFileNameW 32767 0]))"
  by (simp add: run_defs win32_build_def host_def PathMasterError_def)

lemma failed_query_apple:
  "get_executable_path apple_build (growing_host apple_build) ((''/x'', None), log) =
     Some (Inl (Exn PathMasterError_class
        ''PathMasterError: Failed to canonicalize the path on MacOS: PathMasterError: Failed to get the executable path on MacOS after resizing the buffer''),
      ((''/x'', None),
       log @ [Ev_NSGetExecutablePath 1024 1024 (- 1) 1025, Ev_resize 1024 1025 None,
              Ev_NSGetExecutablePath 1025 1025 (- 1) 1026]))"
  by (simp add: run_defs PATH_MAX_def apple_build_def growing_host_def host_def PathMasterError_def)

lemma failed_resize_apple:
  "get_executable_path apple_build (exhausted_host apple_build) ((''/x'', None), log) =
     Some (Inl (Exn PathMasterError_class
        ''PathMasterError: Failed to canonicalize the path on MacOS: std::bad_alloc''),
      ((''/x'', None),
       log @ [Ev_NSGetExecutablePath 1024 1024 (- 1) 4294967295,
              Ev_resize 1024 4294967295 (Some out_of_memory)]))"
  by (simp add: run_defs PATH_MAX_def apple_build_def exhausted_host_def host_def
      PathMasterError_def out_of_memory_def)

subsection \<open>Unsupported platforms\<close>

text \<open>
  C6. When none of the three symbols is defined, \<^verbatim>\<open>get_executable_path\<close> throws a
  \<^verbatim>\<open>PathMasterError\<close> whose text is "PathMasterError: Unsupported platform". It never
  returns a path, it does so for every host and every state, and it leaves the state and
  the log as they were: the host is not asked anything.
\<close>

theorem C6_unsupported_platform:
  "get_executable_path \<lparr>defined_linux = False, defined_APPLE = False, defined_WIN32 = False\<rparr> os w
     = Some (Inl (PathMasterError ''Unsupported platform''), w)
   \<and> cls (PathMasterError ''Unsupported platform'') = PathMasterError_class
   \<and> what (PathMasterError ''Unsupported platform'') = ''PathMasterError: Unsupported platform''"
  by (simp add: get_executable_path_def PathMasterError_def)

subsection \<open>The text of the exception\<close>

lemma get_executable_path_throws_PathMasterError:
  "get_executable_path m os w = Some (Inl e, w') \<Longrightarrow> \<exists>message. e = PathMasterError message"
  by (auto simp: get_executable_path_def catch_rethrow_def
      split: if_splits option.splits prod.splits sum.splits)

lemma apple_try_throws:
  "apple_query os w = Some (Inl e, w1) \<Longrightarrow> apple_try os w = Some (Inl e, w1)"
  by (simp add: apple_try_def)

lemma apple_query_own_throw:
  assumes "apple_query os (s, log) = Some (Inl x, w1)" and "thrown (last (snd w1)) = None"
  shows "x = PathMasterError ''Failed to get the executable path on MacOS after resizing the buffer''"
proof (cases rule: apple_query_cases [of os s])
  case (overflow rc out n1 s1)
  with assms show ?thesis by simp
next
  case (first out n1 s1)
  with assms show ?thesis by simp
next
  case (resize_throws rc out n1 s1 e s2)
  with assms show ?thesis by auto
next
  case (retry_overflow rc out n1 s1 s2 rc' out2 n3 s3)
  with assms show ?thesis by simp
next
  case (retry rc out n1 s1 s2 rc' out2 n3 s3)
  with assms show ?thesis by (auto split: if_splits)
qed

text \<open>
  C10. The constructor of \<^verbatim>\<open>PathMasterError\<close> puts "PathMasterError: " before every
  message, so the text of every exception \<^verbatim>\<open>get_executable_path\<close> throws starts with
  it. On the Apple branch, a \<^verbatim>\<open>PathMasterError\<close> that leaves the query inside the try
  block is caught by the handler of the same try block and wrapped again; when no call
  of the host threw, that exception is the one the header throws after the second
  failed query, and the text thrown is the one given here, with the prefix twice. On
  the Windows branch the same happens when the system call returns 0.
\<close>

theorem C10_message_prefix:
  "prefix ''PathMasterError: '' (what (PathMasterError message))
   \<and> (case get_executable_path m os (s, log) of
         Some (Inl e, w') \<Rightarrow> prefix ''PathMasterError: '' (what e)
       | _ \<Rightarrow> True)
   \<and> (\<not> defined_linux m \<and> defined_APPLE m \<longrightarrow>
        (\<forall>msg w1. apple_query os (s, log) = Some (Inl (PathMasterError msg), w1) \<longrightarrow>
           get_executable_path m os (s, log) =
             Some (Inl (Exn PathMasterError_class
                (''PathMasterError: Failed to canonicalize the path on MacOS: PathMasterError: '' @ msg)),
              w1)))
   \<and> (\<not> defined_linux m \<and> defined_APPLE m \<longrightarrow>
        (\<forall>x w1. apple_query os (s, log) = Some (Inl x, w1) \<and> thrown (last (snd w1)) = None \<longrightarrow>
           get_executable_path m os (s, log) =
             Some (Inl (Exn PathMasterError_class
                ''PathMasterError: Failed to canonicalize the path on MacOS: PathMasterError: Failed to get the executable path on MacOS after resizing the buffer''),
              w1)))
   \<and> (windows_build m \<longrightarrow>
        (\<forall>out s1. GetModuleFileNameW os 32767 s = ((0, out), s1) \<and> length out \<le> 32767 \<longrightarrow>
           get_executable_path m os (s, log) =
             Some (Inl (Exn PathMasterError_class
                ''PathMasterError: Failed to canonicalize the path on Windows: PathMasterError: Failed to get the executable path on Windows''),
              (s1, log @ [Ev_GetModuleFileNameW 32767 0]))))"
proof (intro conjI impI allI)
  show "prefix ''PathMasterError: '' (what (PathMasterError message))"
    by (simp add: what_PathMasterError)
next
  show "case get_executable_path m os (s, log) of
          Some (Inl e, w') \<Rightarrow> prefix ''PathMasterError: '' (what e) | _ \<Rightarrow> True"
  proof (cases "get_executable_path m os (s, log)")
    case None
    then show ?thesis by simp
  next
    case (Some res)
    obtain r w' where res: "res = (r, w')" by (cases res)
    show ?thesis
    proof (cases r)
      case (Inl e)
      with Some res obtain message where "e = PathMasterError message"
        using get_executable_path_throws_PathMasterError by blast
      with Some res Inl show ?thesis by (simp add: what_PathMasterError)
    next
      case (Inr p)
      with Some res show ?thesis by simp
    qed
  qed
next
  fix msg w1
  assume m: "\<not> defined_linux m \<and> defined_APPLE m"
    and q: "apple_query os (s, log) = Some (Inl (PathMasterError msg), w1)"
  from m apple_try_throws [OF q]
  show "get_executable_path m os (s, log) =
          Some (Inl (Exn PathMasterError_class
             (''PathMasterError: Failed to canonicalize the path on MacOS: PathMasterError: '' @ msg)),
           w1)"
    by (simp add: get_executable_path_apple catch_rethrow_Inl PathMasterError_def)
next
  fix x w1
  assume m: "\<not> defined_linux m \<and> defined_APPLE m"
    and q: "apple_query os (s, log) = Some (Inl x, w1) \<and> thrown (last (snd w1)) = None"
  from conjunct1 [OF q] conjunct2 [OF q]
  have x: "x = PathMasterError ''Failed to get the executable path on MacOS after resizing the buffer''"
    by (rule apple_query_own_throw)
  from q have "apple_try os (s, log) = Some (Inl x, w1)"
    by (simp add: apple_try_throws)
  with m show "get_executable_path m os (s, log) =
          Some (Inl (Exn PathMasterError_class
             ''PathMasterError: Failed to canonicalize the path on MacOS: PathMasterError: Failed to get the executable path on MacOS after resizing the buffer''),
           w1)"
    by (simp add: get_executable_path_apple catch_rethrow_Inl x PathMasterError_def)
next
  fix out s1
  assume m: "windows_build m"
    and g: "GetModuleFileNameW os 32767 s = ((0, out), s1) \<and> length out \<le> 32767"
  then have "length out \<le> length (vector 32767)"
    by (simp add: length_vector)
  from call_GetModuleFileNameW_run [OF conjunct1 [OF g] this, of log] m
  show "get_executable_path m os (s, log) =
          Some (Inl (Exn PathMasterError_class
             ''PathMasterError: Failed to canonicalize the path on Windows: PathMasterError: Failed to get the executable path on Windows''),
           (s1, log @ [Ev_GetModuleFileNameW 32767 0]))"
    by (simp add: get_executable_path_windows windows_try_def Let_def sizes catch_rethrow_Inl
        PathMasterError_def)
qed

lemma growing_host_apple_query:
  "apple_query (growing_host apple_build) ((''/x'', None), log) =
     Some (Inl (PathMasterError ''Failed to get the executable path on MacOS after resizing the buffer''),
       ((''/x'', None),
        log @ [Ev_NSGetExecutablePath 1024 1024 (- 1) 1025, Ev_resize 1024 1025 None,
               Ev_NSGetExecutablePath 1025 1025 (- 1) 1026]))"
  by (simp add: run_defs PATH_MAX_def growing_host_def host_def)

lemma host_module_none:
  "GetModuleFileNameW (host m) n ([], c) = ((0, []), ([], c))"
  by (simp add: host_def)

theorem C10_message_prefix_witness:
  "(\<not> defined_linux apple_build \<and> defined_APPLE apple_build)
   \<and> apple_query (growing_host apple_build) ((''/x'', None), []) =
       Some (Inl (PathMasterError ''Failed to get the executable path on MacOS after resizing the buffer''),
        ((''/x'', None),
         [Ev_NSGetExecutablePath 1024 1024 (- 1) 1025, Ev_resize 1024 1025 None,
          Ev_NSGetExecutablePath 1025 1025 (- 1) 1026]))
   \<and> thrown (Ev_NSGetExecutablePath 1025 1025 (- 1) 1026) = None
   \<and> get_executable_path apple_build (growing_host apple_build) ((''/x'', None), []) =
       Some (Inl (Exn PathMasterError_class
          ''PathMasterError: Failed to canonicalize the path on MacOS: PathMasterError: Failed to get the executable path on MacOS after resizing the buffer''),
        ((''/x'', None),
         [Ev_NSGetExecutablePath 1024 1024 (- 1) 1025, Ev_resize 1024 1025 None,
          Ev_NSGetExecutablePath 1025 1025 (- 1) 1026]))
   \<and> windows_build win32_build
   \<and> GetModuleFileNameW (host win32_build) 32767 ([], None) = ((0, []), ([], None))
   \<and> get_executable_path win32_build (host win32_build) (([], None), []) =
       Some (Inl (Exn PathMasterError_class
          ''PathMasterError: Failed to canonicalize the path on Windows: PathMasterError: Failed to get the executable path on Windows''),
        (([], None), [Ev_GetModuleFileNameW 32767 0]))"
proof -
  have a: "\<not> defined_linux apple_build \<and> defined_APPLE apple_build"
    by (simp add: apple_build_def)
  note q = growing_host_apple_query [of "[]", simplified]
  have w: "windows_build win32_build"
    by (simp add: windows_build_def win32_build_def)
  have g: "GetModuleFileNameW (host win32_build) 32767 ([], None) = ((0, []), ([], None))"
    by (rule host_module_none)
  from C10_message_prefix [of undefined apple_build "growing_host apple_build" "(''/x'', None)" "[]"] a q
  have r1: "get_executable_path apple_build (growing_host apple_build) ((''/x'', None), []) =
       Some (Inl (Exn PathMasterError_class
          ''PathMasterError: Failed to canonicalize the path on MacOS: PathMasterError: Failed to get the executable path on MacOS after resizing the buffer''),
        ((''/x'', None),
         [Ev_NSGetExecutablePath 1024 1024 (- 1) 1025, Ev_resize 1024 1025 None,
          Ev_NSGetExecutablePath 1025 1025 (- 1) 1026]))"
    by simp
  from C10_message_prefix [of undefined win32_build "host win32_build" "([], None)" "[]"] w g
  have r2: "get_executable_path win32_build (host win32_build) (([], None), []) =
       Some (Inl (Exn PathMasterError_class
          ''PathMasterError: Failed to canonicalize the path on Windows: PathMasterError: Failed to get the executable path on Windows''),
        (([], None), [Ev_GetModuleFileNameW 32767 0]))"
    by simp
  from a q r1 w g r2 show ?thesis by simp
qed

subsection \<open>The label of a failed query\<close>

text \<open>
  C2. The specification says that a failure of the operating system query is never
  reported as a failure of canonicalization. The code does report it so. On the Windows
  branch, when \<^verbatim>\<open>GetModuleFileNameW\<close> returns 0, and on the Apple branch, when
  \<^verbatim>\<open>_NSGetExecutablePath\<close> fails twice, the try block throws a \<^verbatim>\<open>PathMasterError\<close>
  that names the query; the handler of the same try block catches it and throws a
  \<^verbatim>\<open>PathMasterError\<close> whose text, after the prefix of the class, starts with
  "Failed to canonicalize the path". The log shows that \<^verbatim>\<open>canonical\<close> was not
  called in either run.
\<close>

theorem C2_failed_query_labelled_canonicalize:
  "get_executable_path win32_build (host win32_build) (([], None), []) =
     Some (Inl (Exn PathMasterError_class
        ''PathMasterError: Failed to canonicalize the path on Windows: PathMasterError: Failed to get the executable path on Windows''),
      (([], None), [Ev_GetModuleFileNameW 32767 0]))
   \<and> get_executable_path apple_build (growing_host apple_build) ((''/x'', None), []) =
     Some (Inl (Exn PathMasterError_class
        ''PathMasterError: Failed to canonicalize the path on MacOS: PathMasterError: Failed to get the executable path on MacOS after resizing the buffer''),
      ((''/x'', None),
       [Ev_NSGetExecutablePath 1024 1024 (- 1) 1025, Ev_resize 1024 1025 None,
        Ev_NSGetExecutablePath 1025 1025 (- 1) 1026]))
   \<and> filter is_canonical [Ev_GetModuleFileNameW 32767 0] = []
   \<and> filter is_canonical
        [Ev_NSGetExecutablePath 1024 1024 (- 1) 1025, Ev_resize 1024 1025 None,
         Ev_NSGetExecutablePath 1025 1025 (- 1) 1026] = []"
  using failed_query_windows [of "[]"] failed_query_apple [of "[]"] by simp

subsection \<open>Every run ends with a canonical path or a \<^verbatim>\<open>PathMasterError\<close>\<close>

text \<open>
  C1. Whatever the build, a call of \<^verbatim>\<open>get_executable_path\<close> on a host that keeps to
  the memory it is given has defined behaviour, and a call with defined behaviour ends
  in one of two ways. The calls it logged are the calls the host answered, in that
  order. It returns a path: then the last thing it did was a call of
  \<^verbatim>\<open>canonical\<close>, the path is the one \<^verbatim>\<open>canonical\<close> of the host returned there, no
  call threw, and the path is not empty if \<^verbatim>\<open>canonical\<close> never returns an empty
  path. Or it throws: then the exception is a \<^verbatim>\<open>PathMasterError\<close>, no call was made
  after one that threw, and the text of what that call threw ends the text of the
  \<^verbatim>\<open>PathMasterError\<close>.
\<close>

theorem C1_canonical_path_or_PathMasterError:
  "(memory_safe os \<longrightarrow> get_executable_path m os (s, log) \<noteq> None)
   \<and> (\<forall>r s' log'. get_executable_path m os (s, log) = Some (r, (s', log')) \<longrightarrow>
        (\<exists>new. log' = log @ new \<and> replay os s new s'
           \<and> (case r of
                Inl e \<Rightarrow> cls e = PathMasterError_class \<and> rethrown_as new e
              | Inr p \<Rightarrow>
                  returned_by_canonical new p
                  \<and> (\<exists>q st. canonical os q st = (Inr p, s'))
                  \<and> ((\<forall>q st c st'. canonical os q st = (Inr c, st') \<longrightarrow> c \<noteq> []) \<longrightarrow> p \<noteq> []))))"
proof (cases rule: get_executable_path_outcome [of os m s])
  case undefined
  then show ?thesis by simp
next
  case (defined r s' new)
  show ?thesis
  proof (intro conjI impI allI)
    from defined(1) show "get_executable_path m os (s, log) \<noteq> None" by simp
  next
    fix r0 s0 log0
    assume "get_executable_path m os (s, log) = Some (r0, (s0, log0))"
    with defined(1) have eq: "r0 = r" "s0 = s'" "log0 = log @ new" by simp_all
    have "case r of
            Inl e \<Rightarrow> cls e = PathMasterError_class \<and> rethrown_as new e
          | Inr p \<Rightarrow>
              returned_by_canonical new p
              \<and> (\<exists>q st. canonical os q st = (Inr p, s'))
              \<and> ((\<forall>q st c st'. canonical os q st = (Inr c, st') \<longrightarrow> c \<noteq> []) \<longrightarrow> p \<noteq> [])"
    proof (cases r)
      case (Inl e)
      with defined(3) show ?thesis by simp
    next
      case (Inr p)
      with defined(3) have rc: "returned_by_canonical new p"
        and c: "\<exists>q st. canonical os q st = (Inr p, s')"
        by simp_all
      from c have "(\<forall>q st c st'. canonical os q st = (Inr c, st') \<longrightarrow> c \<noteq> []) \<longrightarrow> p \<noteq> []"
        by blast
      with Inr rc c show ?thesis by simp
    qed
    with eq defined(2)
    show "\<exists>new. log0 = log @ new \<and> replay os s new s0
           \<and> (case r0 of
                Inl e \<Rightarrow> cls e = PathMasterError_class \<and> rethrown_as new e
              | Inr p \<Rightarrow>
                  returned_by_canonical new p
                  \<and> (\<exists>q st. canonical os q st = (Inr p, s0))
                  \<and> ((\<forall>q st c st'. canonical os q st = (Inr c, st') \<longrightarrow> c \<noteq> []) \<longrightarrow> p \<noteq> []))"
      by blast
  qed
qed

lemma unat_pred: "n \<noteq> 0 \<Longrightarrow> Suc (unat n - Suc 0) = unat n" for n :: "32 word"
  using unat_gt_0 [of n] by simp

lemma host_memory_safe: "memory_safe (host m)"
  by (auto simp: memory_safe_def host_def c_str_def unat_pred split: if_splits)

lemma contract_host_memory_safe: "memory_safe (contract_host m)"
  using host_memory_safe [of m] by (simp add: memory_safe_def contract_host_def)

lemma contract_host_canonical:
  "canonical (contract_host m) q st = (Inr c, st') \<Longrightarrow> has_root m c \<and> dot_free m c"
  by (auto simp: contract_host_def split: prod.splits sum.splits if_splits)

lemma has_root_nonempty: "has_root m c \<Longrightarrow> c \<noteq> []"
  by (auto simp: has_root_def)

lemma has_root_apple_example: "has_root apple_build ''/Applications/pathmaster_test''"
  by (simp add: has_root_def separator_def)

lemma segments_apple_example:
  "segments apple_build ''/Applications/pathmaster_test'' = [[], ''Applications'', ''pathmaster_test'']"
  by (simp add: segments_def separator_def windows_build_def apple_build_def)

lemma dot_free_apple_example: "dot_free apple_build ''/Applications/pathmaster_test''"
  by (simp add: dot_free_def segments_apple_example)

lemma c_str_apple_example:
  "c_str (''/Applications/./pathmaster_test'' @ CHR 0x00 # rest) = Some ''/Applications/./pathmaster_test''"
  by (rule c_str_terminated) simp

lemma contract_host_apple_example:
  "get_executable_path apple_build (contract_host apple_build)
     ((''/Applications/./pathmaster_test'', Some ''/Applications/pathmaster_test''), log) =
     Some (Inr ''/Applications/pathmaster_test'',
      ((''/Applications/./pathmaster_test'', Some ''/Applications/pathmaster_test''),
       log @ [Ev_NSGetExecutablePath 1024 1024 0 1024,
              Ev_canonical ''/Applications/./pathmaster_test'' (Inr ''/Applications/pathmaster_test'')]))"
proof -
  have q: "NSGetExecutablePath (contract_host apple_build) 1024
             (''/Applications/./pathmaster_test'', Some ''/Applications/pathmaster_test'') =
           ((0, ''/Applications/./pathmaster_test'' @ [CHR 0x00], 1024),
            (''/Applications/./pathmaster_test'', Some ''/Applications/pathmaster_test''))"
    by (simp add: contract_host_def host_def)
  have c: "canonical (contract_host apple_build) ''/Applications/./pathmaster_test''
             (''/Applications/./pathmaster_test'', Some ''/Applications/pathmaster_test'') =
           (Inr ''/Applications/pathmaster_test'',
            (''/Applications/./pathmaster_test'', Some ''/Applications/pathmaster_test''))"
    by (simp add: contract_host_def host_def has_root_apple_example dot_free_apple_example)
  have fit: "length (''/Applications/./pathmaster_test'' @ [CHR 0x00]) \<le> length (vector PATH_MAX)"
    by (simp add: length_vector PATH_MAX_def)
  have a: "\<not> defined_linux apple_build" "defined_APPLE apple_build"
    by (simp_all add: apple_build_def)
  from call_NSGetExecutablePath_run [OF q fit, of log] call_canonical_run [OF c] a
  show ?thesis
    using c_str_apple_example
    by (simp add: get_executable_path_apple apple_try_def apple_query_def Let_def sizes
        PATH_MAX_def catch_rethrow_Inr)
qed

theorem C1_canonical_path_or_PathMasterError_witness:
  "memory_safe (contract_host apple_build)
   \<and> get_executable_path apple_build (contract_host apple_build)
       ((''/Applications/./pathmaster_test'', Some ''/Applications/pathmaster_test''), []) =
     Some (Inr ''/Applications/pathmaster_test'',
       ((''/Applications/./pathmaster_test'', Some ''/Applications/pathmaster_test''),
        [Ev_NSGetExecutablePath 1024 1024 0 1024,
         Ev_canonical ''/Applications/./pathmaster_test'' (Inr ''/Applications/pathmaster_test'')]))
   \<and> replay (contract_host apple_build)
       (''/Applications/./pathmaster_test'', Some ''/Applications/pathmaster_test'')
       [Ev_NSGetExecutablePath 1024 1024 0 1024,
        Ev_canonical ''/Applications/./pathmaster_test'' (Inr ''/Applications/pathmaster_test'')]
       (''/Applications/./pathmaster_test'', Some ''/Applications/pathmaster_test'')
   \<and> (\<exists>q st. canonical (contract_host apple_build) q st =
         (Inr ''/Applications/pathmaster_test'',
          (''/Applications/./pathmaster_test'', Some ''/Applications/pathmaster_test'')))
   \<and> ''/Applications/pathmaster_test'' \<noteq> []"
proof -
  let ?os = "contract_host apple_build"
  let ?st = "(''/Applications/./pathmaster_test'', Some ''/Applications/pathmaster_test'')"
  let ?new = "[Ev_NSGetExecutablePath 1024 1024 0 1024,
               Ev_canonical ''/Applications/./pathmaster_test'' (Inr ''/Applications/pathmaster_test'')]"
  have safe: "memory_safe ?os"
    by (rule contract_host_memory_safe)
  have run: "get_executable_path apple_build ?os (?st, []) =
      Some (Inr ''/Applications/pathmaster_test'', (?st, ?new))"
    using contract_host_apple_example [of "[]"] by simp
  have nonempty: "\<forall>q st c st'. canonical ?os q st = (Inr c, st') \<longrightarrow> c \<noteq> []"
    using contract_host_canonical has_root_nonempty by blast
  from C1_canonical_path_or_PathMasterError [of ?os apple_build ?st "[]"] run
  obtain new where "?new = [] @ new" and "replay ?os ?st new ?st"
    and "\<exists>q st. canonical ?os q st = (Inr ''/Applications/pathmaster_test'', ?st)"
    and "(\<forall>q st c st'. canonical ?os q st = (Inr c, st') \<longrightarrow> c \<noteq> [])
           \<longrightarrow> ''/Applications/pathmaster_test'' \<noteq> []"
    by auto
  with safe run nonempty show ?thesis by simp
qed

subsection \<open>The Linux branch\<close>

text \<open>
  C7. With \<^verbatim>\<open>__linux__\<close> defined, \<^verbatim>\<open>get_executable_path\<close> reads the link
  \<^verbatim>\<open>/proc/self/exe\<close> and then makes what it read canonical, and does nothing else.
  If reading the link throws, \<^verbatim>\<open>canonical\<close> is not called and a
  \<^verbatim>\<open>PathMasterError\<close> is thrown whose message ends with the text of the exception
  caught; if \<^verbatim>\<open>canonical\<close> throws, the same; otherwise the path \<^verbatim>\<open>canonical\<close>
  returned is returned.
\<close>

theorem C7_linux_read_link_then_canonical:
  assumes "defined_linux m"
  shows
    "case read_symlink os ''/proc/self/exe'' s of
       (Inl e, s1) \<Rightarrow>
         get_executable_path m os (s, log) =
           Some (Inl (PathMasterError (''Failed to get the executable path on GNU/Linux: '' @ what e)),
            (s1, log @ [Ev_read_symlink ''/proc/self/exe'' (Inl e)]))
     | (Inr link, s1) \<Rightarrow>
         (case canonical os link s1 of
            (Inl e, s2) \<Rightarrow>
              get_executable_path m os (s, log) =
                Some (Inl (PathMasterError (''Failed to get the executable path on GNU/Linux: '' @ what e)),
                 (s2, log @ [Ev_read_symlink ''/proc/self/exe'' (Inr link), Ev_canonical link (Inl e)]))
          | (Inr p, s2) \<Rightarrow>
              get_executable_path m os (s, log) =
                Some (Inr p,
                 (s2, log @ [Ev_read_symlink ''/proc/self/exe'' (Inr link), Ev_canonical link (Inr p)])))"
  using assms
proof (cases rule: linux_cases [of m os s])
  case (link_throws e s1)
  then show ?thesis by simp
next
  case (canonical link s1 c s2)
  then show ?thesis by (cases c) (simp_all add: rewrap_def)
qed

lemma host_read_symlink:
  "read_symlink (host m) ''/proc/self/exe'' st = (Inr (fst st), st)"
  by (simp add: host_def)

lemma host_canonical:
  "canonical (host m) (fst st) st =
     (case snd st of None \<Rightarrow> Inl no_such_file | Some c \<Rightarrow> Inr c, st)"
  by (simp add: host_def)

theorem C7_linux_read_link_then_canonical_witness:
  "defined_linux linux_build
   \<and> get_executable_path linux_build (host linux_build)
       ((''/opt/build/./pathmaster_test'', Some ''/opt/build/pathmaster_test''), []) =
       Some (Inr ''/opt/build/pathmaster_test'',
        ((''/opt/build/./pathmaster_test'', Some ''/opt/build/pathmaster_test''),
         [Ev_read_symlink ''/proc/self/exe'' (Inr ''/opt/build/./pathmaster_test''),
          Ev_canonical ''/opt/build/./pathmaster_test'' (Inr ''/opt/build/pathmaster_test'')]))
   \<and> get_executable_path linux_build (host linux_build) ((''/opt/build/gone'', None), []) =
       Some (Inl (Exn PathMasterError_class
          ''PathMasterError: Failed to get the executable path on GNU/Linux: filesystem error: No such file or directory''),
        ((''/opt/build/gone'', None),
         [Ev_read_symlink ''/proc/self/exe'' (Inr ''/opt/build/gone''),
          Ev_canonical ''/opt/build/gone'' (Inl no_such_file)]))"
proof -
  have l: "defined_linux linux_build"
    by (simp add: linux_build_def)
  show ?thesis
    using l
      C7_linux_read_link_then_canonical [OF l, of "host linux_build"
        "(''/opt/build/./pathmaster_test'', Some ''/opt/build/pathmaster_test'')" "[]"]
      C7_linux_read_link_then_canonical [OF l, of "host linux_build" "(''/opt/build/gone'', None)" "[]"]
    by (simp add: host_read_symlink
        host_canonical [of linux_build "(''/opt/build/./pathmaster_test'', Some ''/opt/build/pathmaster_test'')", simplified]
        host_canonical [of linux_build "(''/opt/build/gone'', None)", simplified]
        no_such_file_def PathMasterError_def)
qed

subsection \<open>The Windows branch\<close>


lemma length_windows_exe: "length windows_exe = 28"
  by (simp add: windows_exe_def)

lemma windows_exe_no_NUL: "CHR 0x00 \<notin> set windows_exe"
  by (simp add: windows_exe_def)

lemma windows_exe_nonempty: "windows_exe \<noteq> []"
  by (simp add: windows_exe_def)

lemma windows_exe_query:
  "GetModuleFileNameW (host m) 32767 (windows_exe, c) =
     ((28, windows_exe @ [CHR 0x00]), (windows_exe, c))"
  by (simp add: host_def windows_exe_nonempty length_windows_exe)

lemma windows_exe_path_ctor:
  "path_ctor (host m) (windows_exe @ [CHR 0x00] @ rest) n = Some windows_exe"
  using c_str_terminated [OF windows_exe_no_NUL] by (simp add: host_def)


subsection \<open>The Apple branch\<close>

lemma defined_run:
  assumes "get_executable_path m os (s, log) = Some (r, (s', log'))"
  shows "\<exists>new. log' = log @ new \<and> replay os s new s'
           \<and> (\<forall>log0. get_executable_path m os (s, log0) = Some (r, (s', log0 @ new)))"
proof (cases rule: get_executable_path_outcome [of os m s])
  case undefined
  with assms show ?thesis by simp
next
  case (defined r0 s0 new)
  from defined(1) [of log] assms have eq: "r0 = r" "s0 = s'" "log' = log @ new" by simp_all
  with defined(1,2) show ?thesis by auto
qed

text \<open>
  C3, as the code has it. On the Apple branch, a run with defined behaviour calls
  \<^verbatim>\<open>_NSGetExecutablePath\<close> once or twice and resizes the buffer at most once, and the
  log is what the host answered. The first call is made with the buffer of
  \<^verbatim>\<open>PATH_MAX\<close> bytes. If it returns 0, nothing else happens before \<^verbatim>\<open>canonical\<close>.
  If it does not, the buffer is resized once, to the size the call left in
  \<^verbatim>\<open>size\<close>. If the resize throws, the query is not made again and the exception is
  rethrown as a \<^verbatim>\<open>PathMasterError\<close>. If it does not throw, the call is made once
  more, with a buffer of exactly that many bytes and that size; if this second call
  does not return 0 either, nothing more is tried and a \<^verbatim>\<open>PathMasterError\<close> is
  thrown.
\<close>

theorem C3_apple_one_resize_one_retry:
  assumes "\<not> defined_linux m" and "defined_APPLE m"
    and "get_executable_path m os (s, log) = Some (r, (s', log'))"
  shows
    "\<exists>new. log' = log @ new \<and> replay os s new s'
       \<and> length (filter is_query new) \<le> 2
       \<and> length (filter is_resize new) \<le> 1
       \<and> ((\<exists>n1 q c.
              new = [Ev_NSGetExecutablePath PATH_MAX (word_of_nat PATH_MAX) 0 n1,
                     Ev_canonical q c])
          \<or> (\<exists>rc n1 e.
              rc \<noteq> 0 \<and> PATH_MAX < unat n1
              \<and> new = [Ev_NSGetExecutablePath PATH_MAX (word_of_nat PATH_MAX) rc n1,
                       Ev_resize PATH_MAX (unat n1) (Some e)]
              \<and> r = Inl (PathMasterError (''Failed to canonicalize the path on MacOS: '' @ what e)))
          \<or> (\<exists>rc n1 rc' n3.
              rc \<noteq> 0 \<and> rc' \<noteq> 0
              \<and> new = [Ev_NSGetExecutablePath PATH_MAX (word_of_nat PATH_MAX) rc n1,
                       Ev_resize PATH_MAX (unat n1) None,
                       Ev_NSGetExecutablePath (unat n1) n1 rc' n3]
              \<and> r = Inl (PathMasterError (''Failed to canonicalize the path on MacOS: '' @
                         what (PathMasterError
                           ''Failed to get the executable path on MacOS after resizing the buffer''))))
          \<or> (\<exists>rc n1 n3 q c.
              rc \<noteq> 0
              \<and> new = [Ev_NSGetExecutablePath PATH_MAX (word_of_nat PATH_MAX) rc n1,
                       Ev_resize PATH_MAX (unat n1) None,
                       Ev_NSGetExecutablePath (unat n1) n1 0 n3,
                       Ev_canonical q c]))"
proof -
  from defined_run [OF assms(3)] obtain new where new: "log' = log @ new"
    and rp: "replay os s new s'"
    and run: "\<And>log0. get_executable_path m os (s, log0) = Some (r, (s', log0 @ new))"
    by blast
  from assms(1,2) show ?thesis
  proof (cases rule: apple_cases [of m os s])
    case undefined
    with assms(3) show ?thesis by simp
  next
    case (first out n1 s1 q c s2)
    from first(5) [of "[]"] run [of "[]"]
    have "new = [Ev_NSGetExecutablePath PATH_MAX 1024 0 n1, Ev_canonical q c]"
      by simp
    with new rp show ?thesis
      by (simp add: word_of_nat_PATH_MAX)
  next
    case (resize_throws rc out n1 s1 e s2)
    from resize_throws(6) [of "[]"] run [of "[]"]
    have "new = [Ev_NSGetExecutablePath PATH_MAX 1024 rc n1, Ev_resize PATH_MAX (unat n1) (Some e)]"
      and "r = Inl (PathMasterError (''Failed to canonicalize the path on MacOS: '' @ what e))"
      by simp_all
    with new rp resize_throws(2,4) show ?thesis
      by (simp add: word_of_nat_PATH_MAX)
  next
    case (retry_fails rc out n1 s1 s2 rc' out2 n3 s3)
    from retry_fails(8) [of "[]"] run [of "[]"]
    have "new = [Ev_NSGetExecutablePath PATH_MAX 1024 rc n1, Ev_resize PATH_MAX (unat n1) None,
                 Ev_NSGetExecutablePath (unat n1) n1 rc' n3]"
      and "r = Inl (PathMasterError (''Failed to canonicalize the path on MacOS: '' @
                 what (PathMasterError
                   ''Failed to get the executable path on MacOS after resizing the buffer'')))"
      by simp_all
    with new rp retry_fails(2,7) show ?thesis
      by (simp add: word_of_nat_PATH_MAX)
  next
    case (retry rc out n1 s1 s2 out2 n3 s3 q c s4)
    from retry(9) [of "[]"] run [of "[]"]
    have "new = [Ev_NSGetExecutablePath PATH_MAX 1024 rc n1, Ev_resize PATH_MAX (unat n1) None,
                 Ev_NSGetExecutablePath (unat n1) n1 0 n3, Ev_canonical q c]"
      by simp
    with new rp retry(2) show ?thesis
      by (simp add: word_of_nat_PATH_MAX)
  qed
qed

lemma length_long_exe: "length long_exe = 1117"
  by (simp add: long_exe_def)

lemma long_exe_no_NUL: "CHR 0x00 \<notin> set long_exe"
  by (simp add: long_exe_def)

lemma long_exe_run:
  "get_executable_path apple_build (host apple_build)
     ((long_exe, Some ''/opt/pathmaster_test''), log) =
     Some (Inr ''/opt/pathmaster_test'',
       ((long_exe, Some ''/opt/pathmaster_test''),
        log @ [Ev_NSGetExecutablePath 1024 1024 (- 1) 1118,
               Ev_resize 1024 1118 None,
               Ev_NSGetExecutablePath 1118 1118 0 1118,
               Ev_canonical long_exe (Inr ''/opt/pathmaster_test'')]))"
proof -
  let ?st = "(long_exe, Some ''/opt/pathmaster_test'')"
  have a: "\<not> defined_linux apple_build" "defined_APPLE apple_build"
    by (simp_all add: apple_build_def)
  have q1: "NSGetExecutablePath (host apple_build) 1024 ?st = ((- 1, [], 1118), ?st)"
    by (simp add: host_def length_long_exe)
  have q2: "NSGetExecutablePath (host apple_build) 1118 ?st = ((0, long_exe @ [CHR 0x00], 1118), ?st)"
    by (simp add: host_def length_long_exe)
  have al: "allocate (host apple_build) 1118 ?st = (None, ?st)"
    by (simp add: host_def)
  have c: "canonical (host apple_build) long_exe ?st = (Inr ''/opt/pathmaster_test'', ?st)"
    using host_canonical [of apple_build ?st] by simp
  have fit1: "length ([] :: char list) \<le> length (vector PATH_MAX)"
    by simp
  have rs: "do_resize (host apple_build) 1118 ([] @ drop (length ([] :: char list)) (vector PATH_MAX))
              (?st, log @ [Ev_NSGetExecutablePath 1024 1024 (- 1) 1118]) =
            (Inr (resize 1118 (vector PATH_MAX)),
             (?st, log @ [Ev_NSGetExecutablePath 1024 1024 (- 1) 1118, Ev_resize 1024 1118 None]))"
    using al by (simp add: do_resize_def length_vector PATH_MAX_def)
  have fit2: "length (long_exe @ [CHR 0x00]) \<le> length (resize 1118 (vector PATH_MAX))"
    by (simp add: length_resize length_long_exe)
  have str: "c_str ((long_exe @ [CHR 0x00]) @
               drop (length (long_exe @ [CHR 0x00])) (resize 1118 (vector PATH_MAX))) = Some long_exe"
    using c_str_terminated [OF long_exe_no_NUL] by simp
  from call_NSGetExecutablePath_run [OF q1 fit1, of log] rs
    call_NSGetExecutablePath_run [OF q2 fit2,
      of "log @ [Ev_NSGetExecutablePath 1024 1024 (- 1) 1118, Ev_resize 1024 1118 None]"]
    str call_canonical_run [OF c] a
  show ?thesis
    by (simp add: get_executable_path_apple apple_try_def apple_query_def Let_def sizes PATH_MAX_def
        catch_rethrow_Inr)
qed

theorem C3_apple_one_resize_one_retry_witness:
  "\<not> defined_linux apple_build \<and> defined_APPLE apple_build
   \<and> get_executable_path apple_build (host apple_build) ((long_exe, Some ''/opt/pathmaster_test''), []) =
       Some (Inr ''/opt/pathmaster_test'',
         ((long_exe, Some ''/opt/pathmaster_test''),
          [Ev_NSGetExecutablePath 1024 1024 (- 1) 1118, Ev_resize 1024 1118 None,
           Ev_NSGetExecutablePath 1118 1118 0 1118,
           Ev_canonical long_exe (Inr ''/opt/pathmaster_test'')]))
   \<and> replay (host apple_build) (long_exe, Some ''/opt/pathmaster_test'')
       [Ev_NSGetExecutablePath 1024 1024 (- 1) 1118, Ev_resize 1024 1118 None,
        Ev_NSGetExecutablePath 1118 1118 0 1118,
        Ev_canonical long_exe (Inr ''/opt/pathmaster_test'')]
       (long_exe, Some ''/opt/pathmaster_test'')
   \<and> get_executable_path apple_build (growing_host apple_build) ((''/x'', None), []) =
       Some (Inl (Exn PathMasterError_class
          ''PathMasterError: Failed to canonicalize the path on MacOS: PathMasterError: Failed to get the executable path on MacOS after resizing the buffer''),
        ((''/x'', None),
         [Ev_NSGetExecutablePath 1024 1024 (- 1) 1025, Ev_resize 1024 1025 None,
          Ev_NSGetExecutablePath 1025 1025 (- 1) 1026]))
   \<and> replay (growing_host apple_build) (''/x'', None)
       [Ev_NSGetExecutablePath 1024 1024 (- 1) 1025, Ev_resize 1024 1025 None,
        Ev_NSGetExecutablePath 1025 1025 (- 1) 1026]
       (''/x'', None)"
proof -
  have a: "\<not> defined_linux apple_build" "defined_APPLE apple_build"
    by (simp_all add: apple_build_def)
  note r1 = long_exe_run [of "[]", simplified]
  note r2 = failed_query_apple [of "[]", simplified]
  from C3_apple_one_resize_one_retry [OF a, of "host apple_build" _ "[]", OF long_exe_run [of "[]"]]
  have p1: "replay (host apple_build) (long_exe, Some ''/opt/pathmaster_test'')
       [Ev_NSGetExecutablePath 1024 1024 (- 1) 1118, Ev_resize 1024 1118 None,
        Ev_NSGetExecutablePath 1118 1118 0 1118,
        Ev_canonical long_exe (Inr ''/opt/pathmaster_test'')]
       (long_exe, Some ''/opt/pathmaster_test'')"
    by clarsimp
  from C3_apple_one_resize_one_retry [OF a, of "growing_host apple_build" _ "[]",
      OF failed_query_apple [of "[]"]]
  have p2: "replay (growing_host apple_build) (''/x'', None)
       [Ev_NSGetExecutablePath 1024 1024 (- 1) 1025, Ev_resize 1024 1025 None,
        Ev_NSGetExecutablePath 1025 1025 (- 1) 1026]
       (''/x'', None)"
    by clarsimp
  from a r1 p1 r2 p2 show ?thesis by blast
qed

text \<open>
  C3, as the specification has it, says that after a failed first query the query is
  always made a second time. It is not when the resize throws: on a host that reports a
  need of 4294967295 bytes and has no memory to give, the log holds one query and the
  failed resize, and the call throws a \<^verbatim>\<open>PathMasterError\<close> with the text of
  \<^verbatim>\<open>bad_alloc\<close>.
\<close>

theorem C3_resize_throws_counterexample:
  "NSGetExecutablePath (exhausted_host apple_build) 1024 (''/x'', None) =
     ((- 1, [], 4294967295), (''/x'', None))
   \<and> allocate (exhausted_host apple_build) 4294967295 (''/x'', None) =
     (Some out_of_memory, (''/x'', None))
   \<and> get_executable_path apple_build (exhausted_host apple_build) ((''/x'', None), []) =
     Some (Inl (Exn PathMasterError_class
        ''PathMasterError: Failed to canonicalize the path on MacOS: std::bad_alloc''),
      ((''/x'', None),
       [Ev_NSGetExecutablePath 1024 1024 (- 1) 4294967295,
        Ev_resize 1024 4294967295 (Some out_of_memory)]))
   \<and> length (filter is_query
        [Ev_NSGetExecutablePath 1024 1024 (- 1) 4294967295,
         Ev_resize 1024 4294967295 (Some out_of_memory)]) = 1"
  using failed_resize_apple [of "[]"] by (simp add: exhausted_host_def host_def)

subsection \<open>What is returned went through \<^verbatim>\<open>canonical\<close>\<close>








subsection \<open>Calling twice\<close>

text \<open>
  C9. If the state of the host is one that no call of the host changes, then two calls
  of \<^verbatim>\<open>get_executable_path\<close>, one after the other, end the same way: when the first
  returns a path or throws, the second, made in the world the first left, returns the
  same path or throws the same exception, and the state of the host is still the same.
  Nothing the first call leaves behind (here: the log) is read by the second.
\<close>

theorem C9_two_calls_agree:
  assumes "unmodified os s"
    and "get_executable_path m os (s, log) = Some (r1, w1)"
  shows "fst w1 = s
       \<and> (\<exists>w2. get_executable_path m os w1 = Some (r1, w2) \<and> fst w2 = s)
       \<and> (\<forall>r2 w2. get_executable_path m os w1 = Some (r2, w2) \<longrightarrow> r2 = r1 \<and> fst w2 = s)"
proof -
  obtain s' log' where w1: "w1 = (s', log')" by (cases w1)
  from defined_run [of m os s log r1 s' log'] assms(2) w1 obtain new where
    new: "log' = log @ new" and rp: "replay os s new s'"
    and run: "\<And>log0. get_executable_path m os (s, log0) = Some (r1, (s', log0 @ new))"
    by blast
  from unmodified_replay [OF assms(1) rp] have s': "s' = s" .
  from run [of log'] s' w1
  have second: "get_executable_path m os w1 = Some (r1, (s, log' @ new))"
    by simp
  with s' w1 show ?thesis by simp
qed

lemma host_unmodified: "unmodified (host m) st"
  by (simp add: unmodified_def host_def)

lemma host_linux_example:
  "get_executable_path linux_build (host linux_build)
     ((''/opt/build/./pathmaster_test'', Some ''/opt/build/pathmaster_test''), log) =
     Some (Inr ''/opt/build/pathmaster_test'',
      ((''/opt/build/./pathmaster_test'', Some ''/opt/build/pathmaster_test''),
       log @ [Ev_read_symlink ''/proc/self/exe'' (Inr ''/opt/build/./pathmaster_test''),
              Ev_canonical ''/opt/build/./pathmaster_test'' (Inr ''/opt/build/pathmaster_test'')]))"
  by (simp add: run_defs linux_build_def host_def)

theorem C9_two_calls_agree_witness:
  "unmodified (host linux_build) (''/opt/build/./pathmaster_test'', Some ''/opt/build/pathmaster_test'')
   \<and> get_executable_path linux_build (host linux_build)
        ((''/opt/build/./pathmaster_test'', Some ''/opt/build/pathmaster_test''), []) =
       Some (Inr ''/opt/build/pathmaster_test'',
         ((''/opt/build/./pathmaster_test'', Some ''/opt/build/pathmaster_test''),
          [Ev_read_symlink ''/proc/self/exe'' (Inr ''/opt/build/./pathmaster_test''),
           Ev_canonical ''/opt/build/./pathmaster_test'' (Inr ''/opt/build/pathmaster_test'')]))
   \<and> (\<exists>w2. get_executable_path linux_build (host linux_build)
        ((''/opt/build/./pathmaster_test'', Some ''/opt/build/pathmaster_test''),
         [Ev_read_symlink ''/proc/self/exe'' (Inr ''/opt/build/./pathmaster_test''),
          Ev_canonical ''/opt/build/./pathmaster_test'' (Inr ''/opt/build/pathmaster_test'')]) =
       Some (Inr ''/opt/build/pathmaster_test'', w2)
       \<and> fst w2 = (''/opt/build/./pathmaster_test'', Some ''/opt/build/pathmaster_test''))"
proof -
  let ?st = "(''/opt/build/./pathmaster_test'', Some ''/opt/build/pathmaster_test'')"
  have u: "unmodified (host linux_build) ?st"
    by (rule host_unmodified)
  note first = host_linux_example [of "[]", simplified]
  from C9_two_calls_agree [OF u host_linux_example [of "[]"]] u first
  show ?thesis by simp
qed

subsection \<open>The self-test\<close>

lemma main_returns:
  "get_executable_path m os w = Some (Inr p, w1) \<Longrightarrow>
   map_option fst (main m os w) =
     Some (Exit (if filename os p = ''pathmaster_test'' then 0 else EXIT_FAILURE))"
  by (simp add: main_def Let_def)

lemma main_terminates:
  "get_executable_path m os w = Some (Inl e, w1) \<Longrightarrow> main m os w = Some (Terminate e, w1)"
  by (simp add: main_def)

lemma host_windows_example:
  "get_executable_path win32_build (host win32_build) ((windows_exe, Some windows_exe), log) =
     Some (Inr windows_exe,
      ((windows_exe, Some windows_exe),
       log @ [Ev_GetModuleFileNameW 32767 28, Ev_canonical windows_exe (Inr windows_exe)]))"
proof -
  have w: "windows_build win32_build"
    by (simp add: windows_build_def win32_build_def)
  have fit: "length (windows_exe @ [CHR 0x00]) \<le> length (vector 32767)"
    by (simp add: length_windows_exe length_vector)
  have c: "canonical (host win32_build) windows_exe (windows_exe, Some windows_exe) =
       (Inr windows_exe, (windows_exe, Some windows_exe))"
    using host_canonical [of win32_build "(windows_exe, Some windows_exe)"] by simp
  from call_GetModuleFileNameW_run [OF windows_exe_query fit, of win32_build "Some windows_exe" log]
    windows_exe_path_ctor [of win32_build] call_canonical_run [OF c] w
  show ?thesis
    by (simp add: get_executable_path_windows windows_try_def Let_def sizes catch_rethrow_Inr)
qed

lemma host_linux_exe_example:
  "get_executable_path linux_build (host linux_build)
     ((''/opt/build/pathmaster_test.exe'', Some ''/opt/build/pathmaster_test.exe''), log) =
     Some (Inr ''/opt/build/pathmaster_test.exe'',
      ((''/opt/build/pathmaster_test.exe'', Some ''/opt/build/pathmaster_test.exe''),
       log @ [Ev_read_symlink ''/proc/self/exe'' (Inr ''/opt/build/pathmaster_test.exe''),
              Ev_canonical ''/opt/build/pathmaster_test.exe'' (Inr ''/opt/build/pathmaster_test.exe'')]))"
  by (simp add: run_defs linux_build_def host_def)

lemma filename_linux_exe_example:
  "filename (host linux_build) ''/opt/build/pathmaster_test.exe'' = ''pathmaster_test.exe''"
  by (simp add: host_def last_component_def separator_def windows_build_def linux_build_def)

lemma filename_windows_exe:
  "filename (host win32_build) windows_exe = ''pathmaster_test.exe''"
  by (simp add: host_def last_component_def windows_exe_def separator_def windows_build_def win32_build_def)

lemma filename_linux_example:
  "filename (host linux_build) ''/opt/build/pathmaster_test'' = ''pathmaster_test''"
  by (simp add: host_def last_component_def separator_def windows_build_def linux_build_def)

text \<open>
  C4. The specification says that the self-test of a binary named
  \<^verbatim>\<open>pathmaster_test.exe\<close> exits with 0, the suffix being stripped or ignored. The code
  does not do that. When \<^verbatim>\<open>get_executable_path\<close> returns a path, the self-test
  compares the whole filename component of that path with "pathmaster_test": it
  exits with 0 when the filename is "pathmaster_test", and with \<^verbatim>\<open>EXIT_FAILURE\<close>,
  which is not 0, for every other filename, "pathmaster_test.exe" among them,
  whatever the branch that resolved the path.
\<close>

theorem C4_self_test_compares_whole_filename:
  assumes "get_executable_path m os w = Some (Inr p, w1)"
  shows "(filename os p = ''pathmaster_test'' \<longrightarrow> map_option fst (main m os w) = Some (Exit 0))
       \<and> (filename os p \<noteq> ''pathmaster_test'' \<longrightarrow> map_option fst (main m os w) = Some (Exit EXIT_FAILURE))
       \<and> (filename os p = ''pathmaster_test.exe'' \<longrightarrow> map_option fst (main m os w) = Some (Exit EXIT_FAILURE))
       \<and> EXIT_FAILURE \<noteq> 0"
proof -
  have "EXIT_FAILURE \<noteq> 0" by (simp add: EXIT_FAILURE_def)
  moreover have "filename os p = ''pathmaster_test.exe'' \<longrightarrow> filename os p \<noteq> ''pathmaster_test''"
    by auto
  ultimately show ?thesis
    using main_returns [OF assms] by presburger
qed

theorem C4_self_test_compares_whole_filename_witness:
  "get_executable_path win32_build (host win32_build) ((windows_exe, Some windows_exe), []) =
     Some (Inr windows_exe,
      ((windows_exe, Some windows_exe),
       [Ev_GetModuleFileNameW 32767 28, Ev_canonical windows_exe (Inr windows_exe)]))
   \<and> filename (host win32_build) windows_exe = ''pathmaster_test.exe''
   \<and> map_option fst (main win32_build (host win32_build) ((windows_exe, Some windows_exe), [])) =
       Some (Exit 1)
   \<and> get_executable_path linux_build (host linux_build)
     ((''/opt/build/./pathmaster_test'', Some ''/opt/build/pathmaster_test''), []) =
     Some (Inr ''/opt/build/pathmaster_test'',
      ((''/opt/build/./pathmaster_test'', Some ''/opt/build/pathmaster_test''),
       [Ev_read_symlink ''/proc/self/exe'' (Inr ''/opt/build/./pathmaster_test''),
        Ev_canonical ''/opt/build/./pathmaster_test'' (Inr ''/opt/build/pathmaster_test'')]))
   \<and> filename (host linux_build) ''/opt/build/pathmaster_test'' = ''pathmaster_test''
   \<and> map_option fst (main linux_build (host linux_build)
        ((''/opt/build/./pathmaster_test'', Some ''/opt/build/pathmaster_test''), [])) = Some (Exit 0)
   \<and> get_executable_path linux_build (host linux_build)
     ((''/opt/build/pathmaster_test.exe'', Some ''/opt/build/pathmaster_test.exe''), []) =
     Some (Inr ''/opt/build/pathmaster_test.exe'',
      ((''/opt/build/pathmaster_test.exe'', Some ''/opt/build/pathmaster_test.exe''),
       [Ev_read_symlink ''/proc/self/exe'' (Inr ''/opt/build/pathmaster_test.exe''),
        Ev_canonical ''/opt/build/pathmaster_test.exe'' (Inr ''/opt/build/pathmaster_test.exe'')]))
   \<and> filename (host linux_build) ''/opt/build/pathmaster_test.exe'' = ''pathmaster_test.exe''
   \<and> map_option fst (main linux_build (host linux_build)
        ((''/opt/build/pathmaster_test.exe'', Some ''/opt/build/pathmaster_test.exe''), [])) =
       Some (Exit 1)"
  using C4_self_test_compares_whole_filename [OF host_linux_example [of "[]"]]
    C4_self_test_compares_whole_filename [OF host_windows_example [of "[]"]]
    C4_self_test_compares_whole_filename [OF host_linux_exe_example [of "[]"]]
    host_linux_example [of "[]"] host_windows_example [of "[]"] host_linux_exe_example [of "[]"]
  by (simp add: filename_windows_exe filename_linux_example filename_linux_exe_example
      EXIT_FAILURE_def)

end
